theory Spec2Isabelle
  imports Main
begin

section \<open>JavaScript values\<close>

text \<open>
  The worker of \<^verbatim>\<open>dev-worker-impl.ts\<close> handles plain JavaScript data: numbers, strings,
  streams, functions and objects. An object carries a flag telling whether it has been frozen and
  its properties in insertion order. \<open>JRef\<close> is a reference to an object that lives in the
  worker's heap (the context map of a render request). \<open>JFunction\<close> stands for the values
  that the structured clone algorithm refuses, such as functions and symbols.
\<close>

datatype js_value =
    JUndefined
  | JNumber int
  | JString string
  | JStream nat
  | JFunction
  | JRef nat
  | JObject bool "(string \<times> js_value) list"

text \<open>Object literals of the source (\<^verbatim>\<open>{ id, type: 'err', err }\<close>) are finite maps from property
  names to values.\<close>

type_synonym js_object = "string \<rightharpoonup> js_value"

type_synonym MessageRes = js_object

text \<open>Reading a property: \<^verbatim>\<open>o.k\<close> is \<^verbatim>\<open>undefined\<close> when the property is absent or when
  \<^verbatim>\<open>o\<close> is not an object.\<close>

fun get_prop :: "js_value \<Rightarrow> string \<Rightarrow> js_value" where
  "get_prop (JObject fr fs) k = (case map_of fs k of None \<Rightarrow> JUndefined | Some v \<Rightarrow> v)"
| "get_prop v k = JUndefined"

definition get_field :: "js_object \<Rightarrow> string \<Rightarrow> js_value" where
  "get_field ob k = (case ob k of None \<Rightarrow> JUndefined | Some v \<Rightarrow> v)"

text \<open>
  Modelled from the spec: \<^verbatim>\<open>hasStatusCode\<close> of \<^verbatim>\<open>renderers/utils.js\<close>, which is not part of
  the sources at hand. The spec says that the status code is copied when "the error exposes a
  status-code attribute".
\<close>

definition hasStatusCode :: "js_value \<Rightarrow> bool" where
  "hasStatusCode err = (get_prop err ''statusCode'' \<noteq> JUndefined)"

text \<open>
  Modelled from the spec: \<^verbatim>\<open>deepFreeze\<close> of \<^verbatim>\<open>renderers/utils.js\<close>, which is not part of the
  sources at hand. The spec says that the context map is "deep-frozen": the object and every
  object reachable through its properties is frozen.
\<close>

fun deepFreeze :: "js_value \<Rightarrow> js_value" where
  "deepFreeze (JObject fr fs) = JObject True (map (\<lambda>kv. (fst kv, deepFreeze (snd kv))) fs)"
| "deepFreeze v = v"

text \<open>
  An assignment \<^verbatim>\<open>o.k1.k2. ... .kn = v\<close> made by pipeline code. The result is \<open>None\<close>
  when the assignment is rejected: the object that would receive the property is frozen, or the
  path does not lead to an object. Otherwise it is the updated object.
\<close>

fun set_prop :: "(string \<times> js_value) list \<Rightarrow> string \<Rightarrow> js_value \<Rightarrow> (string \<times> js_value) list" where
  "set_prop [] k v = [(k, v)]"
| "set_prop ((k', v') # fs) k v = (if k' = k then (k, v) # fs else (k', v') # set_prop fs k v)"

fun assign :: "js_value \<Rightarrow> string list \<Rightarrow> js_value \<Rightarrow> js_value option" where
  "assign (JObject fr fs) [k] v = (if fr then None else Some (JObject fr (set_prop fs k v)))"
| "assign (JObject fr fs) (k # k' # ks) v =
     (case map_of fs k of
        None \<Rightarrow> None
      | Some child \<Rightarrow>
          (case assign child (k' # ks) v of
             None \<Rightarrow> None
           | Some child' \<Rightarrow> Some (JObject fr (set_prop fs k child'))))"
| "assign ob ks v = None"

text \<open>
  Whether \<^verbatim>\<open>postMessage\<close> can serialise a value: a function cannot be cloned, a stream only
  when it is listed in the transfer list, an object when all of its property values can. A
  reference is followed at the top of a message property only.
\<close>

fun cloneable_val :: "js_value list \<Rightarrow> js_value \<Rightarrow> bool" where
  "cloneable_val items JFunction = False"
| "cloneable_val items (JRef r) = False"
| "cloneable_val items (JStream s) = (JStream s \<in> set items)"
| "cloneable_val items (JObject fr fs) = (\<forall>kv\<in>set fs. cloneable_val items (snd kv))"
| "cloneable_val items v = True"

fun cloneable :: "(nat \<Rightarrow> js_value) \<Rightarrow> js_value list \<Rightarrow> js_value \<Rightarrow> bool" where
  "cloneable h items (JRef r) = cloneable_val items (h r)"
| "cloneable h items v = cloneable_val items v"

text \<open>Only streams are listed in the transfer lists of this worker; any other value in a
  transfer list is refused.\<close>

fun transferable :: "js_value \<Rightarrow> bool" where
  "transferable (JStream s) = True"
| "transferable v = False"

section \<open>Messages and collaborators\<close>

text \<open>
  An inbound message (\<^verbatim>\<open>MessageReq\<close>) is one object with a \<^verbatim>\<open>type\<close> discriminant; the
  handlers destructure the properties they need. \<open>rq_context\<close> is the address of the
  request's context map in the worker's heap.
\<close>

record ResolvedConfig =
  srcDir :: string
  entriesJs :: string

record MessageReq =
  rq_id :: int
  rq_type :: string
  rq_config :: ResolvedConfig
  rq_input :: string
  rq_searchParamsString :: string
  rq_method :: string
  rq_context :: nat
  rq_stream :: "nat option"
  rq_contentType :: "string option"
  rq_hasModuleIdCallback :: bool
  rq_pathname :: string

text \<open>The resolved Vite server; only \<^verbatim>\<open>vite.config.root\<close> is read by the worker.\<close>

record vite =
  root :: string

text \<open>
  What the rendering pipeline does with the references it is given: it may call
  \<^verbatim>\<open>moduleIdCallback\<close> (when one was passed) and assign into the context map.
\<close>

datatype pipeline_action =
    ReportModuleId string
  | AssignContext "string list" js_value

text \<open>
  One call of \<^verbatim>\<open>renderRsc\<close>. After the \<^verbatim>\<open>await\<close> the handler runs to its end without a
  break, so every action of the pipeline comes either before the handler resumes or after the
  handler has returned. \<open>before_resume\<close> are the actions up to the moment when the handler
  resumes, those between the settlement of the promise and the resumption included;
  \<open>settles\<close> is the settled value (\<open>Inl\<close> a thrown or rejected error, \<open>Inr\<close> the
  readable stream); \<open>after_return\<close> are the actions that pipeline code performs after the
  handler has returned, while the stream is produced, through the references it still holds.
\<close>

record pipeline_run =
  before_resume :: "pipeline_action list"
  settles :: "js_value + nat"
  after_return :: "pipeline_action list"

record RenderRscArgs =
  ra_config :: ResolvedConfig
  ra_input :: string
  ra_searchParams :: string
  ra_method :: string
  ra_context :: nat
  ra_body :: "nat option"
  ra_contentType :: "string option"
  ra_moduleIdCallback :: bool
  ra_isDev :: bool
  ra_customImport :: "string \<Rightarrow> js_value + js_value"
  ra_entries :: js_value

record GetSsrConfigArgs =
  ga_config :: ResolvedConfig
  ga_pathname :: string
  ga_searchParams :: string
  ga_isDev :: bool
  ga_entries :: js_value

text \<open>
  The collaborators that are imported by the worker and are outside of it: the two pipelines of
  \<^verbatim>\<open>rsc-renderer.js\<close>, Vite's module loader and the path helpers. An awaited promise is
  represented by the value it settles to.
\<close>

record externals =
  renderRsc :: "RenderRscArgs \<Rightarrow> pipeline_run"
  getSsrConfig :: "GetSsrConfigArgs \<Rightarrow> js_value + js_object option"
  ssrLoadModule :: "vite \<Rightarrow> string \<Rightarrow> js_value + js_value"
  joinPath :: "string list \<Rightarrow> string"
  fileURLToFilePath :: "string \<Rightarrow> string"

section \<open>Worker state\<close>

text \<open>
  \<open>outbox\<close> is what has been posted on \<^verbatim>\<open>parentPort\<close>, oldest first, each message with
  its transfer list (\<open>None\<close> when \<^verbatim>\<open>postMessage\<close> was called without one). \<open>heap\<close> holds
  the context maps. \<open>vitePromise\<close> is the module-level constant of the same name, by the value
  it settles to. \<open>private_env\<close> is \<^verbatim>\<open>globalThis.__WAKU_PRIVATE_ENV__\<close>, and
  \<open>createViteServer_calls\<close> counts the calls of \<^verbatim>\<open>createViteServer\<close>. \<open>crashed\<close> holds the
  error of a handler whose promise was rejected: the listener does not catch it, and the worker
  ends.
\<close>

record worker =
  outbox :: "(MessageRes \<times> js_value list option) list"
  heap :: "nat \<Rightarrow> js_value"
  vitePromise :: "js_value + vite"
  private_env :: js_value
  createViteServer_calls :: nat
  crashed :: "js_value option"

text \<open>\<^verbatim>\<open>postMessage\<close> serialises its argument when it is called: a reference to a heap object
  is replaced by the object's content at that moment.\<close>

fun clone :: "(nat \<Rightarrow> js_value) \<Rightarrow> js_value \<Rightarrow> js_value" where
  "clone h (JRef r) = h r"
| "clone h v = v"

definition serialise :: "(nat \<Rightarrow> js_value) \<Rightarrow> MessageRes \<Rightarrow> MessageRes" where
  "serialise h mesg = (\<lambda>k. map_option (clone h) (mesg k))"

definition transfer_items :: "js_value list option \<Rightarrow> js_value list" where
  "transfer_items transferList = (case transferList of None \<Rightarrow> [] | Some items \<Rightarrow> items)"

definition DataCloneError :: js_value where
  "DataCloneError = JObject False [(''name'', JString ''DataCloneError'')]"

text \<open>
  \<^verbatim>\<open>parentPort.postMessage(mesg, transferList)\<close> throws, and posts nothing, when the transfer
  list holds a value that cannot be transferred or when a property of the message cannot be
  cloned. Otherwise the serialised message is appended to the outbox.
\<close>

definition can_post :: "(nat \<Rightarrow> js_value) \<Rightarrow> MessageRes \<Rightarrow> js_value list option \<Rightarrow> bool" where
  "can_post h mesg transferList =
     ((\<forall>x\<in>set (transfer_items transferList). transferable x)
      \<and> (\<forall>v\<in>ran mesg. cloneable h (transfer_items transferList) v))"

definition postMessage :: "MessageRes \<Rightarrow> js_value list option \<Rightarrow> worker \<Rightarrow> js_value + worker" where
  "postMessage mesg transferList w =
     (if can_post (heap w) mesg transferList
      then Inr (w\<lparr>outbox := outbox w @ [(serialise (heap w) mesg, transferList)]\<rparr>)
      else Inl DataCloneError)"

text \<open>A call of \<^verbatim>\<open>postMessage\<close> that is not inside a \<^verbatim>\<open>try\<close> block: when it throws, the
  promise of the handler is rejected and the worker ends.\<close>

definition post_uncaught :: "MessageRes \<Rightarrow> js_value list option \<Rightarrow> worker \<Rightarrow> worker" where
  "post_uncaught mesg transferList w =
     (case postMessage mesg transferList w of
        Inl err \<Rightarrow> w\<lparr>crashed := Some err\<rparr>
      | Inr w' \<Rightarrow> w')"

section \<open>The module loader\<close>

definition loadServerFile :: "externals \<Rightarrow> js_value + vite \<Rightarrow> string \<Rightarrow> js_value + js_value" where
  "loadServerFile ext vp fileURL =
     (case vp of
        Inl err \<Rightarrow> Inl err
      | Inr vite \<Rightarrow> ssrLoadModule ext vite (fileURLToFilePath ext fileURL))"

definition loadEntries :: "externals \<Rightarrow> js_value + vite \<Rightarrow> ResolvedConfig \<Rightarrow> js_value + js_value" where
  "loadEntries ext vp config =
     (case vp of
        Inl err \<Rightarrow> Inl err
      | Inr vite \<Rightarrow>
          ssrLoadModule ext vite (joinPath ext [root vite, srcDir config, entriesJs config]))"

section \<open>The handlers\<close>

text \<open>The message of the \<^verbatim>\<open>catch\<close> block, which is the same in both handlers.\<close>

definition err_mesg :: "int \<Rightarrow> js_value \<Rightarrow> MessageRes" where
  "err_mesg i err =
     (let mesg = [''id'' \<mapsto> JNumber i, ''type'' \<mapsto> JString ''err'', ''err'' \<mapsto> err]
      in if hasStatusCode err
         then mesg(''statusCode'' \<mapsto> get_prop err ''statusCode'')
         else mesg)"

definition start_mesg :: "int \<Rightarrow> nat \<Rightarrow> nat \<Rightarrow> MessageRes" where
  "start_mesg i c readable =
     [''id'' \<mapsto> JNumber i, ''type'' \<mapsto> JString ''start'', ''context'' \<mapsto> JRef c,
      ''stream'' \<mapsto> JStream readable]"

text \<open>
  The end of the \<^verbatim>\<open>try\<close> block of \<open>handleRender\<close>, from the resumption after
  \<^verbatim>\<open>await renderRsc(...)\<close>, with its \<^verbatim>\<open>catch\<close> block: the \<^verbatim>\<open>start\<close> message is posted with the
  stream in the transfer list and then the context map is frozen; when \<^verbatim>\<open>postMessage\<close> throws,
  nothing is frozen and the \<^verbatim>\<open>catch\<close> block posts the error that was thrown.
\<close>

definition freeze_context :: "nat \<Rightarrow> worker \<Rightarrow> worker" where
  "freeze_context c w = w\<lparr>heap := (heap w)(c := deepFreeze (heap w c))\<rparr>"

definition try_start :: "int \<Rightarrow> nat \<Rightarrow> nat \<Rightarrow> worker \<Rightarrow> worker" where
  "try_start i c readable w =
     (case postMessage (start_mesg i c readable) (Some [JStream readable]) w of
        Inl err \<Rightarrow> post_uncaught (err_mesg i err) None w
      | Inr w' \<Rightarrow> freeze_context c w')"

text \<open>
  The end of the \<^verbatim>\<open>try\<close> block of \<open>handleGetSsrConfig\<close>, from the resumption after
  \<^verbatim>\<open>await getSsrConfig(...)\<close>, with its \<^verbatim>\<open>catch\<close> block. In \<^verbatim>\<open>{ id, type: 'ssrConfig', ...ssrConfig }\<close>
  a property of the resolver's object replaces a property of the same name written before it.
\<close>

definition ssr_mesg :: "int \<Rightarrow> js_object option \<Rightarrow> MessageRes" where
  "ssr_mesg i res =
     (case res of
        Some ssrConfig \<Rightarrow> [''id'' \<mapsto> JNumber i, ''type'' \<mapsto> JString ''ssrConfig''] ++ ssrConfig
      | None \<Rightarrow> [''id'' \<mapsto> JNumber i, ''type'' \<mapsto> JString ''noSsrConfig''])"

definition ssr_transfer :: "js_object option \<Rightarrow> js_value list option" where
  "ssr_transfer res =
     (case res of Some ssrConfig \<Rightarrow> Some [get_field ssrConfig ''body''] | None \<Rightarrow> None)"

definition try_ssrConfig :: "int \<Rightarrow> js_object option \<Rightarrow> worker \<Rightarrow> worker" where
  "try_ssrConfig i res w =
     (case postMessage (ssr_mesg i res) (ssr_transfer res) w of
        Inl err \<Rightarrow> post_uncaught (err_mesg i err) None w
      | Inr w' \<Rightarrow> w')"

text \<open>
  An effect is what happens in one stretch of execution that nothing interrupts: a call of
  \<^verbatim>\<open>postMessage\<close> outside of a \<^verbatim>\<open>try\<close> block (by the module id callback or by a \<^verbatim>\<open>catch\<close>
  block), an assignment into a context map by pipeline code, or the end of the \<^verbatim>\<open>try\<close> block
  of one of the two handlers. A worker that has ended performs nothing.
\<close>

datatype effect =
    PostMessage MessageRes "js_value list option"
  | Assign nat "string list" js_value
  | TryStart int nat nat
  | TrySsrConfig int "js_object option"

fun step :: "effect \<Rightarrow> worker \<Rightarrow> worker" where
  "step (PostMessage mesg transferList) w = post_uncaught mesg transferList w"
| "step (Assign r ks v) w =
     (case assign (heap w r) ks v of
        None \<Rightarrow> w
      | Some ob \<Rightarrow> w\<lparr>heap := (heap w)(r := ob)\<rparr>)"
| "step (TryStart i c readable) w = try_start i c readable w"
| "step (TrySsrConfig i res) w = try_ssrConfig i res w"

definition perform :: "effect \<Rightarrow> worker \<Rightarrow> worker" where
  "perform e w = (if crashed w = None then step e w else w)"

fun run :: "effect list \<Rightarrow> worker \<Rightarrow> worker" where
  "run [] w = w"
| "run (e # es) w = run es (perform e w)"

text \<open>The \<^verbatim>\<open>catch\<close> block, entered with the error of a failed \<^verbatim>\<open>await\<close>.\<close>

definition catch_err :: "int \<Rightarrow> js_value \<Rightarrow> effect list" where
  "catch_err i err = [PostMessage (err_mesg i err) None]"

text \<open>The closure assigned to \<^verbatim>\<open>rr.moduleIdCallback\<close>.\<close>

definition moduleIdCallback :: "int \<Rightarrow> string \<Rightarrow> effect" where
  "moduleIdCallback i moduleId =
     PostMessage [''id'' \<mapsto> JNumber i, ''type'' \<mapsto> JString ''moduleId'',
                  ''moduleId'' \<mapsto> JString moduleId] None"

text \<open>The effects of pipeline actions: a reported module id reaches the callback when there
  is one (\<^verbatim>\<open>moduleIdCallback?.(id)\<close>), an assignment goes to the context map.\<close>

fun pipeline_effects :: "(string \<Rightarrow> effect) option \<Rightarrow> nat \<Rightarrow> pipeline_action list \<Rightarrow> effect list" where
  "pipeline_effects cb c [] = []"
| "pipeline_effects cb c (ReportModuleId m # acts) =
     (case cb of None \<Rightarrow> [] | Some f \<Rightarrow> [f m]) @ pipeline_effects cb c acts"
| "pipeline_effects cb c (AssignContext ks v # acts) = Assign c ks v # pipeline_effects cb c acts"

definition renderRscArgs :: "externals \<Rightarrow> js_value + vite \<Rightarrow> MessageReq \<Rightarrow> js_value \<Rightarrow> RenderRscArgs" where
  "renderRscArgs ext vp mesg entries =
     \<lparr>ra_config = rq_config mesg, ra_input = rq_input mesg,
      ra_searchParams = rq_searchParamsString mesg, ra_method = rq_method mesg,
      ra_context = rq_context mesg, ra_body = rq_stream mesg,
      ra_contentType = rq_contentType mesg,
      ra_moduleIdCallback = rq_hasModuleIdCallback mesg, ra_isDev = True,
      ra_customImport = loadServerFile ext vp, ra_entries = entries\<rparr>"

text \<open>
  \<open>handleRender\<close> gives the effects of one call of the handler, in order, up to the point
  where the handler's promise settles. The argument \<^verbatim>\<open>entries: await loadEntries(rr.config)\<close>
  is evaluated before \<^verbatim>\<open>renderRsc\<close> is called, so a failing load skips the pipeline. A failed
  \<^verbatim>\<open>await\<close> leads to the \<^verbatim>\<open>catch\<close> block, a resolved \<^verbatim>\<open>renderRsc\<close> to the end of the
  \<^verbatim>\<open>try\<close> block.
\<close>

definition handleRender :: "externals \<Rightarrow> js_value + vite \<Rightarrow> MessageReq \<Rightarrow> effect list" where
  "handleRender ext vp mesg =
     (let i = rq_id mesg;
          cb = (if rq_hasModuleIdCallback mesg then Some (moduleIdCallback i) else None)
      in case loadEntries ext vp (rq_config mesg) of
           Inl err \<Rightarrow> catch_err i err
         | Inr entries \<Rightarrow>
             (let pr = renderRsc ext (renderRscArgs ext vp mesg entries)
              in pipeline_effects cb (rq_context mesg) (before_resume pr) @
                 (case settles pr of
                    Inl err \<Rightarrow> catch_err i err
                  | Inr readable \<Rightarrow> [TryStart i (rq_context mesg) readable])))"

text \<open>What pipeline code does for this request after the handler has returned, through the
  callback and the context map that it was given.\<close>

definition render_aftermath :: "externals \<Rightarrow> js_value + vite \<Rightarrow> MessageReq \<Rightarrow> effect list" where
  "render_aftermath ext vp mesg =
     (let i = rq_id mesg;
          cb = (if rq_hasModuleIdCallback mesg then Some (moduleIdCallback i) else None)
      in case loadEntries ext vp (rq_config mesg) of
           Inl err \<Rightarrow> []
         | Inr entries \<Rightarrow>
             pipeline_effects cb (rq_context mesg)
               (after_return (renderRsc ext (renderRscArgs ext vp mesg entries))))"

definition render_session :: "externals \<Rightarrow> js_value + vite \<Rightarrow> MessageReq \<Rightarrow> effect list" where
  "render_session ext vp mesg = handleRender ext vp mesg @ render_aftermath ext vp mesg"

definition handleGetSsrConfig :: "externals \<Rightarrow> js_value + vite \<Rightarrow> MessageReq \<Rightarrow> effect list" where
  "handleGetSsrConfig ext vp mesg =
     (let i = rq_id mesg
      in case loadEntries ext vp (rq_config mesg) of
           Inl err \<Rightarrow> catch_err i err
         | Inr entries \<Rightarrow>
             (case getSsrConfig ext
                     \<lparr>ga_config = rq_config mesg, ga_pathname = rq_pathname mesg,
                      ga_searchParams = rq_searchParamsString mesg, ga_isDev = True,
                      ga_entries = entries\<rparr> of
                Inl err \<Rightarrow> catch_err i err
              | Inr ssrConfig \<Rightarrow> [TrySsrConfig i ssrConfig]))"

text \<open>The listener installed with \<^verbatim>\<open>parentPort.on('message', ...)\<close>.\<close>

definition on_message :: "externals \<Rightarrow> js_value + vite \<Rightarrow> MessageReq \<Rightarrow> effect list" where
  "on_message ext vp mesg =
     (if rq_type mesg = ''render'' then handleRender ext vp mesg
      else if rq_type mesg = ''getSsrConfig'' then handleGetSsrConfig ext vp mesg
      else [])"

section \<open>Worker start-up and lifetime\<close>

text \<open>
  What module evaluation reads and calls, in the order of the source: the environment variable
  \<^verbatim>\<open>__WAKU_PRIVATE_ENV__\<close>, the JSON parser, \<^verbatim>\<open>mergeUserViteConfig\<close> (awaited at top level,
  by the value it settles to), \<^verbatim>\<open>createViteServer\<close> and \<^verbatim>\<open>vite.ws.close\<close> (\<open>Some\<close> the
  error when closing fails).
\<close>

record startup =
  env_WAKU_PRIVATE_ENV :: "string option"
  json_text :: "string \<Rightarrow> js_value option"
  mergeUserViteConfig :: "js_value + js_value"
  createViteServer :: "js_value \<Rightarrow> js_value + vite"
  ws_close :: "vite \<Rightarrow> js_value option"

definition SyntaxError :: js_value where
  "SyntaxError = JObject False [(''name'', JString ''SyntaxError'')]"

text \<open>\<^verbatim>\<open>JSON.parse\<close> throws a \<^verbatim>\<open>SyntaxError\<close> on \<^verbatim>\<open>undefined\<close> and on a text that is not
  JSON (\<open>json_text\<close> gives \<open>None\<close>).\<close>

definition JSON_parse :: "(string \<Rightarrow> js_value option) \<Rightarrow> string option \<Rightarrow> js_value + js_value" where
  "JSON_parse parser text =
     (case text of
        None \<Rightarrow> Inl SyntaxError
      | Some s \<Rightarrow> (case parser s of None \<Rightarrow> Inl SyntaxError | Some v \<Rightarrow> Inr v))"

text \<open>\<^verbatim>\<open>createViteServer(mergedViteConfig).then(async (vite) => { await vite.ws.close(); return vite; })\<close>\<close>

text \<open>The second argument counts the calls of \<^verbatim>\<open>createViteServer\<close> made so far; the result
  is the value the promise settles to, with the count after this call.\<close>

definition vite_then :: "startup \<Rightarrow> js_value \<Rightarrow> nat \<Rightarrow> (js_value + vite) \<times> nat" where
  "vite_then st merged calls =
     (case createViteServer st merged of
        Inl err \<Rightarrow> (Inl err, Suc calls)
      | Inr vite \<Rightarrow>
          (case ws_close st vite of
             Some err \<Rightarrow> (Inl err, Suc calls)
           | None \<Rightarrow> (Inr vite, Suc calls)))"

text \<open>
  Module evaluation, up to the installation of the message listener: \<open>Inl\<close> when a
  top-level statement throws (then no listener is installed), \<open>Inr\<close> the worker that
  starts listening. Before the call of \<^verbatim>\<open>createViteServer\<close> at the definition of
  \<open>vitePromise\<close> no call of it has been made.
\<close>

definition boot :: "startup \<Rightarrow> js_value + worker" where
  "boot st =
     (case JSON_parse (json_text st) (env_WAKU_PRIVATE_ENV st) of
        Inl err \<Rightarrow> Inl err
      | Inr penv \<Rightarrow>
          (case mergeUserViteConfig st of
             Inl err \<Rightarrow> Inl err
           | Inr merged \<Rightarrow>
               (case vite_then st merged 0 of
                  (vp, calls) \<Rightarrow>
                    Inr \<lparr>outbox = [], heap = (\<lambda>r. JUndefined), vitePromise = vp,
                         private_env = penv, createViteServer_calls = calls,
                         crashed = None\<rparr>)))"

text \<open>The listening worker receives messages one after the other; \<open>serve\<close> runs each
  handler to its end before the next message.\<close>

fun serve :: "externals \<Rightarrow> MessageReq list \<Rightarrow> worker \<Rightarrow> worker" where
  "serve ext [] w = w"
| "serve ext (mesg # mesgs) w = serve ext mesgs (run (on_message ext (vitePromise w) mesg) w)"

text \<open>The whole life of a worker: \<open>None\<close> when module evaluation throws, so that no
  message is ever handled.\<close>

definition lifetime :: "startup \<Rightarrow> externals \<Rightarrow> MessageReq list \<Rightarrow> worker option" where
  "lifetime st ext mesgs =
     (case boot st of Inl err \<Rightarrow> None | Inr w \<Rightarrow> Some (serve ext mesgs w))"

section \<open>Observations on effect lists\<close>

text \<open>
  The messages that the effects pass to \<^verbatim>\<open>postMessage\<close>, in order. The end of a \<^verbatim>\<open>try\<close>
  block passes its message and, when that call throws, the error message of its \<^verbatim>\<open>catch\<close>
  block; both are listed.
\<close>

fun posted :: "effect list \<Rightarrow> MessageRes list" where
  "posted [] = []"
| "posted (PostMessage mesg transferList # es) = mesg # posted es"
| "posted (Assign r ks v # es) = posted es"
| "posted (TryStart i c readable # es) =
     start_mesg i c readable # err_mesg i DataCloneError # posted es"
| "posted (TrySsrConfig i res # es) = ssr_mesg i res # err_mesg i DataCloneError # posted es"

text \<open>What a run has added to the outbox.\<close>

definition new_posts :: "worker \<Rightarrow> worker \<Rightarrow> (MessageRes \<times> js_value list option) list" where
  "new_posts w w' = drop (length (outbox w)) (outbox w')"

definition has_type :: "string \<Rightarrow> MessageRes \<Rightarrow> bool" where
  "has_type t mesg = (mesg ''type'' = Some (JString t))"

definition has_id :: "int \<Rightarrow> MessageRes \<Rightarrow> bool" where
  "has_id i mesg = (mesg ''id'' = Some (JNumber i))"

definition terminal :: "MessageRes \<Rightarrow> bool" where
  "terminal mesg = (has_type ''start'' mesg \<or> has_type ''err'' mesg)"

definition moduleId_mesg :: "int \<Rightarrow> string \<Rightarrow> MessageRes" where
  "moduleId_mesg i moduleId =
     [''id'' \<mapsto> JNumber i, ''type'' \<mapsto> JString ''moduleId'', ''moduleId'' \<mapsto> JString moduleId]"

text \<open>The module ids that a list of pipeline actions reports, in order.\<close>

fun reported :: "pipeline_action list \<Rightarrow> string list" where
  "reported [] = []"
| "reported (ReportModuleId m # acts) = m # reported acts"
| "reported (AssignContext ks v # acts) = reported acts"

text \<open>What the awaited steps of a request come to: \<open>Inl\<close> the error that is thrown or
  rejected by the load of the entries or by the pipeline (and is caught by the handler),
  \<open>Inr\<close> the value that the pipeline resolves to.\<close>

definition render_outcome :: "externals \<Rightarrow> js_value + vite \<Rightarrow> MessageReq \<Rightarrow> js_value + nat" where
  "render_outcome ext vp mesg =
     (case loadEntries ext vp (rq_config mesg) of
        Inl err \<Rightarrow> Inl err
      | Inr entries \<Rightarrow> settles (renderRsc ext (renderRscArgs ext vp mesg entries)))"

definition ssr_outcome :: "externals \<Rightarrow> js_value + vite \<Rightarrow> MessageReq \<Rightarrow> js_value + js_object option" where
  "ssr_outcome ext vp mesg =
     (case loadEntries ext vp (rq_config mesg) of
        Inl err \<Rightarrow> Inl err
      | Inr entries \<Rightarrow>
          getSsrConfig ext
            \<lparr>ga_config = rq_config mesg, ga_pathname = rq_pathname mesg,
             ga_searchParams = rq_searchParamsString mesg, ga_isDev = True,
             ga_entries = entries\<rparr>)"


text \<open>The terminal messages that a run has added to the outbox.\<close>

definition terminals :: "worker \<Rightarrow> worker \<Rightarrow> (MessageRes \<times> js_value list option) list" where
  "terminals w w' = filter (\<lambda>p. terminal (fst p)) (new_posts w w')"

text \<open>The worker at the moment when \<open>handleRender\<close> resumes after its last \<^verbatim>\<open>await\<close>:
  all effects of the handler but the last have been performed.\<close>

definition resume_state :: "externals \<Rightarrow> js_value + vite \<Rightarrow> MessageReq \<Rightarrow> worker \<Rightarrow> worker" where
  "resume_state ext vp mesg w = run (butlast (handleRender ext vp mesg)) w"

text \<open>
  Handlers are not awaited by the listener, so the effects of two handlers that are in flight at
  the same time are interleaved. A schedule tells, at each step, which of the two proceeds
  (\<open>True\<close> for the first); when one of them has finished, the other runs on.
\<close>

fun interleave :: "bool list \<Rightarrow> 'a list \<Rightarrow> 'a list \<Rightarrow> 'a list" where
  "interleave sched [] ys = ys"
| "interleave sched (x # xs) [] = x # xs"
| "interleave [] (x # xs) (y # ys) = x # xs @ y # ys"
| "interleave (True # sched) (x # xs) (y # ys) = x # interleave sched xs (y # ys)"
| "interleave (False # sched) (x # xs) (y # ys) = y # interleave sched (x # xs) ys"

text \<open>The effects of a request of either kind, with what pipeline code does afterwards.\<close>

definition session :: "externals \<Rightarrow> js_value + vite \<Rightarrow> MessageReq \<Rightarrow> effect list" where
  "session ext vp mesg =
     (if rq_type mesg = ''render'' then render_session ext vp mesg
      else on_message ext vp mesg)"

text \<open>\<open>resolver_keeps\<close> says that, for a \<^verbatim>\<open>getSsrConfig\<close> request, the resolver's object
  has no property of the given name.\<close>

definition resolver_keeps :: "string \<Rightarrow> externals \<Rightarrow> js_value + vite \<Rightarrow> MessageReq \<Rightarrow> bool" where
  "resolver_keeps k ext vp mesg =
     (rq_type mesg = ''getSsrConfig'' \<longrightarrow>
        (case ssr_outcome ext vp mesg of
           Inr (Some ssrConfig) \<Rightarrow> ssrConfig k = None
         | other \<Rightarrow> True))"

section \<open>Sample inputs\<close>

definition sample_config :: ResolvedConfig where
  "sample_config = \<lparr>srcDir = ''src'', entriesJs = ''entries.js''\<rparr>"

definition sample_vp :: "js_value + vite" where
  "sample_vp = Inr \<lparr>root = ''/app''\<rparr>"

definition sample_ext :: "pipeline_run \<Rightarrow> js_value + js_object option \<Rightarrow> externals" where
  "sample_ext pr sc =
     \<lparr>renderRsc = (\<lambda>args. pr), getSsrConfig = (\<lambda>args. sc),
      ssrLoadModule = (\<lambda>v path. Inr (JString path)), joinPath = concat,
      fileURLToFilePath = (\<lambda>u. u)\<rparr>"

definition sample_req :: "int \<Rightarrow> string \<Rightarrow> MessageReq" where
  "sample_req i t =
     \<lparr>rq_id = i, rq_type = t, rq_config = sample_config, rq_input = ''index'',
      rq_searchParamsString = [], rq_method = ''GET'', rq_context = 0, rq_stream = None,
      rq_contentType = None, rq_hasModuleIdCallback = True, rq_pathname = ''/about''\<rparr>"

definition not_found :: js_value where
  "not_found = JObject False [(''message'', JString ''not found''), (''statusCode'', JNumber 404)]"

definition plain_error :: js_value where
  "plain_error = JObject False [(''message'', JString ''boom'')]"

definition sample_context :: js_value where
  "sample_context = JObject False [(''user'', JObject False [(''name'', JString ''ann'')])]"

definition sample_worker :: worker where
  "sample_worker =
     \<lparr>outbox = [], heap = (\<lambda>r. sample_context), vitePromise = sample_vp,
      private_env = JObject False [], createViteServer_calls = 1, crashed = None\<rparr>"

definition run_ok :: pipeline_run where
  "run_ok =
     \<lparr>before_resume = [ReportModuleId ''m1'', AssignContext [''user'', ''name''] (JString ''bob''),
                        ReportModuleId ''m2''],
      settles = Inr 7,
      after_return = [AssignContext [''user'', ''name''] (JString ''eve'')]\<rparr>"

definition run_late :: pipeline_run where
  "run_late =
     \<lparr>before_resume = [ReportModuleId ''m1''], settles = Inr 7,
      after_return = [ReportModuleId ''m2'']\<rparr>"

definition run_fail :: "js_value \<Rightarrow> pipeline_run" where
  "run_fail err =
     \<lparr>before_resume = [ReportModuleId ''m1'', AssignContext [''user'', ''name''] (JString ''bob'')],
      settles = Inl err, after_return = []\<rparr>"

definition run_function :: pipeline_run where
  "run_function =
     \<lparr>before_resume = [AssignContext [''onDone''] JFunction], settles = Inr 7, after_return = []\<rparr>"

definition function_error :: js_value where
  "function_error = JObject False [(''message'', JString ''boom''), (''retry'', JFunction)]"

definition sample_startup :: "string option \<Rightarrow> startup" where
  "sample_startup v =
     \<lparr>env_WAKU_PRIVATE_ENV = v,
      json_text = (\<lambda>s. if s = ''{}'' then Some (JObject False []) else None),
      mergeUserViteConfig = Inr (JObject False []),
      createViteServer = (\<lambda>c. Inr \<lparr>root = ''/app''\<rparr>),
      ws_close = (\<lambda>v. None)\<rparr>"

section \<open>Auxiliary facts\<close>

lemma posted_append: "posted (es @ fs) = posted es @ posted fs"
  by (induction es rule: posted.induct) simp_all

lemma moduleIdCallback_eq: "moduleIdCallback i m = PostMessage (moduleId_mesg i m) None"
  by (simp add: moduleIdCallback_def moduleId_mesg_def)

lemma posted_pipeline_None: "posted (pipeline_effects None c acts) = []"
  by (induction acts rule: reported.induct) simp_all

lemma posted_pipeline_Some:
  "posted (pipeline_effects (Some (moduleIdCallback i)) c acts) = map (moduleId_mesg i) (reported acts)"
  by (induction acts rule: reported.induct) (simp_all add: moduleIdCallback_eq)

lemma moduleId_mesg_not_terminal: "\<not> terminal (moduleId_mesg i m)"
  by (simp add: terminal_def has_type_def moduleId_mesg_def)

lemma moduleId_mesg_id: "has_id i (moduleId_mesg i m)"
  by (simp add: has_id_def moduleId_mesg_def)

lemma err_mesg_fields:
  "err_mesg i err ''id'' = Some (JNumber i)"
  "err_mesg i err ''type'' = Some (JString ''err'')"
  "err_mesg i err ''err'' = Some err"
  "err_mesg i err ''context'' = None"
  "err_mesg i err ''statusCode'' =
     (if hasStatusCode err then Some (get_prop err ''statusCode'') else None)"
  by (simp_all add: err_mesg_def Let_def)

lemma start_mesg_fields:
  "start_mesg i c readable ''id'' = Some (JNumber i)"
  "start_mesg i c readable ''type'' = Some (JString ''start'')"
  "start_mesg i c readable ''context'' = Some (JRef c)"
  "start_mesg i c readable ''stream'' = Some (JStream readable)"
  by (simp_all add: start_mesg_def)

lemma terminal_err: "terminal (err_mesg i err)"
  by (simp add: terminal_def has_type_def err_mesg_fields)

lemma terminal_start: "terminal (start_mesg i c r)"
  by (simp add: terminal_def has_type_def start_mesg_fields)

lemma has_id_err: "has_id i (err_mesg i err)"
  by (simp add: has_id_def err_mesg_fields)

lemma has_id_start: "has_id i (start_mesg i c r)"
  by (simp add: has_id_def start_mesg_fields)

lemma has_type_err: "has_type ''err'' (err_mesg i err)"
  by (simp add: has_type_def err_mesg_fields)

lemma has_type_start: "has_type ''start'' (start_mesg i c r)"
  by (simp add: has_type_def start_mesg_fields)

lemma has_id_serialise: "has_id i mesg \<Longrightarrow> has_id i (serialise h mesg)"
  by (simp add: has_id_def serialise_def)

lemma has_type_serialise: "has_type t mesg \<Longrightarrow> has_type t (serialise h mesg)"
  by (simp add: has_type_def serialise_def)

lemma serialise_moduleId: "serialise h (moduleId_mesg i m) = moduleId_mesg i m"
  by (rule ext) (simp add: serialise_def moduleId_mesg_def)

subsection \<open>What can be posted\<close>

lemma ball_ran: "(\<forall>v\<in>ran m. P v) = (\<forall>k v. m k = Some v \<longrightarrow> P v)"
  by (auto simp add: ran_def)

lemma cloneable_val_imp: "cloneable_val items v \<Longrightarrow> cloneable h items v"
  by (cases v) simp_all

lemma cloneable_get_prop:
  assumes "cloneable h items err"
  shows "cloneable h items (get_prop err k)"
proof (cases err)
  case (JObject fr fs)
  show ?thesis
  proof (cases "map_of fs k")
    case None
    with JObject show ?thesis by simp
  next
    case (Some v)
    then have "(k, v) \<in> set fs" by (rule map_of_SomeD)
    with assms JObject have "cloneable_val items v" by auto
    with JObject Some show ?thesis by (simp add: cloneable_val_imp)
  qed
qed simp_all

lemma can_post_err: "can_post h (err_mesg i err) None = cloneable h [] err"
proof
  assume "can_post h (err_mesg i err) None"
  then have "\<forall>k v. err_mesg i err k = Some v \<longrightarrow> cloneable h [] v"
    by (simp add: can_post_def transfer_items_def ball_ran)
  then show "cloneable h [] err"
    using err_mesg_fields(3) by blast
next
  assume c: "cloneable h [] err"
  have "cloneable h [] v" if "err_mesg i err k = Some v" for k v
    using that c cloneable_get_prop [OF c, of "''statusCode''"]
    by (auto simp add: err_mesg_def Let_def split: if_splits)
  then show "can_post h (err_mesg i err) None"
    by (simp add: can_post_def transfer_items_def ball_ran)
qed

lemma can_post_start:
  "can_post h (start_mesg i c r) (Some [JStream r]) = cloneable_val [JStream r] (h c)"
  by (auto simp add: can_post_def transfer_items_def ball_ran start_mesg_def split: if_splits)

lemma can_post_moduleId: "can_post h (moduleId_mesg i m) None"
  by (auto simp add: can_post_def transfer_items_def ball_ran moduleId_mesg_def split: if_splits)

lemma cloneable_DataCloneError: "cloneable h [] DataCloneError"
  by (simp add: DataCloneError_def)

subsection \<open>Running effects\<close>

lemma run_append: "run (es @ fs) w = run fs (run es w)"
  by (induction es arbitrary: w) simp_all

lemma run_crashed: "crashed w \<noteq> None \<Longrightarrow> run es w = w"
  by (induction es arbitrary: w) (auto simp add: perform_def)

lemma post_uncaught_err:
  "post_uncaught (err_mesg i err) None w =
     (if cloneable (heap w) [] err
      then w\<lparr>outbox := outbox w @ [(serialise (heap w) (err_mesg i err), None)]\<rparr>
      else w\<lparr>crashed := Some DataCloneError\<rparr>)"
  by (simp add: post_uncaught_def postMessage_def can_post_err)

lemma try_start_eq:
  "try_start i c r w =
     (if cloneable_val [JStream r] (heap w c)
      then freeze_context c
             (w\<lparr>outbox := outbox w @ [(serialise (heap w) (start_mesg i c r), Some [JStream r])]\<rparr>)
      else w\<lparr>outbox := outbox w @ [(serialise (heap w) (err_mesg i DataCloneError), None)]\<rparr>)"
  by (simp add: try_start_def postMessage_def can_post_start post_uncaught_err
      cloneable_DataCloneError)

lemma perform_moduleIdCallback:
  "crashed w = None \<Longrightarrow>
   perform (moduleIdCallback i m) w = w\<lparr>outbox := outbox w @ [(moduleId_mesg i m, None)]\<rparr>"
  by (simp add: perform_def moduleIdCallback_eq post_uncaught_def postMessage_def
      can_post_moduleId serialise_moduleId)

lemma perform_Assign_fields:
  "outbox (perform (Assign c ks v) w) = outbox w"
  "crashed (perform (Assign c ks v) w) = crashed w"
  by (simp_all add: perform_def split: option.splits)

lemma run_pipeline:
  assumes "crashed w = None"
  shows "crashed (run (pipeline_effects (if b then Some (moduleIdCallback i) else None) c acts) w) = None
     \<and> outbox (run (pipeline_effects (if b then Some (moduleIdCallback i) else None) c acts) w)
         = outbox w @ map (\<lambda>m. (moduleId_mesg i m, None)) (if b then reported acts else [])"
  using assms
proof (induction acts arbitrary: w rule: reported.induct)
  case 1
  then show ?case by simp
next
  case (2 m acts)
  show ?case
  proof (cases b)
    case True
    let ?w = "w\<lparr>outbox := outbox w @ [(moduleId_mesg i m, None)]\<rparr>"
    have "crashed ?w = None" using "2.prems" by simp
    from "2.IH" [OF this] True "2.prems" show ?thesis
      by (simp add: perform_moduleIdCallback)
  next
    case False
    with "2.IH" [OF "2.prems"] show ?thesis by simp
  qed
next
  case (3 ks v acts)
  have "crashed (perform (Assign c ks v) w) = None"
    using "3.prems" by (simp add: perform_Assign_fields)
  from "3.IH" [OF this] show ?case
    by (simp add: perform_Assign_fields)
qed

subsection \<open>The run of a render request\<close>

lemma new_posts_append: "outbox w' = outbox w @ xs \<Longrightarrow> new_posts w w' = xs"
  by (simp add: new_posts_def)

lemma terminals_append:
  "outbox w' = outbox w @ xs \<Longrightarrow> terminals w w' = filter (\<lambda>p. terminal (fst p)) xs"
  by (simp add: terminals_def new_posts_append)

lemma filter_terminal_moduleIds:
  "filter (\<lambda>p. terminal (fst p)) (map (\<lambda>m. (moduleId_mesg i m, None)) ms) = []"
  by (induction ms) (simp_all add: moduleId_mesg_not_terminal)

lemma terminal_serialise: "terminal mesg \<Longrightarrow> terminal (serialise h mesg)"
  by (auto simp add: terminal_def has_type_serialise)

text \<open>The three ways in which \<open>handleRender\<close> ends: the load of the entries fails, the
  pipeline fails, the pipeline resolves.\<close>

lemma handleRender_load_fails:
  assumes "loadEntries ext vp (rq_config mesg) = Inl err"
  shows "handleRender ext vp mesg = catch_err (rq_id mesg) err"
    and "resume_state ext vp mesg w = w"
    and "render_aftermath ext vp mesg = []"
  using assms
  by (simp_all add: handleRender_def resume_state_def render_aftermath_def Let_def catch_err_def)

lemma handleRender_cases:
  assumes "loadEntries ext vp (rq_config mesg) = Inr entries"
    and "pr = renderRsc ext (renderRscArgs ext vp mesg entries)"
    and "pre = pipeline_effects
                 (if rq_hasModuleIdCallback mesg then Some (moduleIdCallback (rq_id mesg)) else None)
                 (rq_context mesg) (before_resume pr)"
  shows "handleRender ext vp mesg
           = pre @ (case settles pr of
                      Inl err \<Rightarrow> catch_err (rq_id mesg) err
                    | Inr readable \<Rightarrow> [TryStart (rq_id mesg) (rq_context mesg) readable])"
    and "resume_state ext vp mesg w = run pre w"
    and "render_aftermath ext vp mesg
           = pipeline_effects
               (if rq_hasModuleIdCallback mesg then Some (moduleIdCallback (rq_id mesg)) else None)
               (rq_context mesg) (after_return pr)"
  using assms
  by (simp_all add: handleRender_def resume_state_def render_aftermath_def Let_def catch_err_def
      butlast_append split: sum.splits)

lemma run_catch_err:
  "crashed w = None \<Longrightarrow> run (catch_err i err) w = post_uncaught (err_mesg i err) None w"
  by (simp add: catch_err_def perform_def)

lemma run_TryStart:
  "crashed w = None \<Longrightarrow> run [TryStart i c r] w = try_start i c r w"
  by (simp add: perform_def)


lemma resume_state_facts:
  assumes "crashed w = None"
  shows "crashed (resume_state ext vp mesg w) = None"
    and "\<exists>ms. outbox (resume_state ext vp mesg w)
           = outbox w @ map (\<lambda>m. (moduleId_mesg (rq_id mesg) m, None)) ms"
proof -
  show "crashed (resume_state ext vp mesg w) = None"
  proof (cases "loadEntries ext vp (rq_config mesg)")
    case (Inl err)
    with assms show ?thesis by (simp add: handleRender_load_fails)
  next
    case (Inr entries)
    from handleRender_cases(2) [OF Inr refl refl] run_pipeline [OF assms]
    show ?thesis by simp
  qed
  show "\<exists>ms. outbox (resume_state ext vp mesg w)
           = outbox w @ map (\<lambda>m. (moduleId_mesg (rq_id mesg) m, None)) ms"
  proof (cases "loadEntries ext vp (rq_config mesg)")
    case (Inl err)
    then have "outbox (resume_state ext vp mesg w)
        = outbox w @ map (\<lambda>m. (moduleId_mesg (rq_id mesg) m, None)) []"
      by (simp add: handleRender_load_fails)
    then show ?thesis by blast
  next
    case (Inr entries)
    from handleRender_cases(2) [OF Inr refl refl] run_pipeline [OF assms]
    show ?thesis by auto
  qed
qed

lemma handleRender_final:
  assumes "crashed w = None"
  shows "run (handleRender ext vp mesg) w =
     (case render_outcome ext vp mesg of
        Inl err \<Rightarrow> post_uncaught (err_mesg (rq_id mesg) err) None (resume_state ext vp mesg w)
      | Inr readable \<Rightarrow>
          try_start (rq_id mesg) (rq_context mesg) readable (resume_state ext vp mesg w))"
proof (cases "loadEntries ext vp (rq_config mesg)")
  case (Inl err)
  with assms show ?thesis
    by (simp add: handleRender_load_fails render_outcome_def run_catch_err)
next
  case (Inr entries)
  define pr where "pr = renderRsc ext (renderRscArgs ext vp mesg entries)"
  define pre where "pre = pipeline_effects
      (if rq_hasModuleIdCallback mesg then Some (moduleIdCallback (rq_id mesg)) else None)
      (rq_context mesg) (before_resume pr)"
  note hr = handleRender_cases(1) [OF Inr pr_def pre_def]
  have rs: "resume_state ext vp mesg w = run pre w"
    by (rule handleRender_cases(2) [OF Inr pr_def pre_def])
  have c: "crashed (run pre w) = None"
    using resume_state_facts(1) [OF assms, of ext vp mesg] rs by simp
  have ro: "render_outcome ext vp mesg = settles pr"
    using Inr by (simp add: render_outcome_def pr_def)
  show ?thesis
  proof (cases "settles pr")
    case (Inl err)
    with hr have "run (handleRender ext vp mesg) w = run (catch_err (rq_id mesg) err) (run pre w)"
      by (simp add: run_append)
    with Inl ro rs c show ?thesis by (simp add: run_catch_err)
  next
    case (Inr readable)
    with hr have "run (handleRender ext vp mesg) w
        = run [TryStart (rq_id mesg) (rq_context mesg) readable] (run pre w)"
      by (simp add: run_append)
    with Inr ro rs c show ?thesis by (simp add: run_TryStart del: run.simps)
  qed
qed

lemma freeze_context_fields:
  "outbox (freeze_context c w) = outbox w"
  "crashed (freeze_context c w) = crashed w"
  "heap (freeze_context c w) = (heap w)(c := deepFreeze (heap w c))"
  by (simp_all add: freeze_context_def)

section \<open>Render requests and their terminal response\<close>

text \<open>
  Claim C1, as the code has it. In a running worker \<open>handleRender\<close> posts at most one
  terminal message, and that message carries the \<^verbatim>\<open>id\<close> of the request. When \<^verbatim>\<open>renderRsc\<close>
  resolves, it is the \<^verbatim>\<open>start\<close> message if the context map can be cloned at that moment, and
  otherwise the \<^verbatim>\<open>err\<close> message for the error that \<^verbatim>\<open>postMessage\<close> has thrown. When the load
  of the entries or \<^verbatim>\<open>renderRsc\<close> fails with an error that can be cloned, it is the \<^verbatim>\<open>err\<close>
  message. When that error cannot be cloned, the \<^verbatim>\<open>postMessage\<close> of the \<^verbatim>\<open>catch\<close> block
  throws: no terminal message is posted and the worker ends. What the pipeline does after the
  handler has returned adds no terminal message.
\<close>

theorem handleRender_one_terminal:
  assumes "crashed w = None"
  shows "(case render_outcome ext vp mesg of
            Inr readable \<Rightarrow>
              crashed (run (handleRender ext vp mesg) w) = None
              \<and> (\<exists>m tr. terminals w (run (handleRender ext vp mesg) w) = [(m, tr)]
                    \<and> has_id (rq_id mesg) m
                    \<and> has_type
                         (if cloneable_val [JStream readable]
                               (heap (resume_state ext vp mesg w) (rq_context mesg))
                          then ''start'' else ''err'') m)
          | Inl err \<Rightarrow>
              if cloneable (heap (resume_state ext vp mesg w)) [] err
              then crashed (run (handleRender ext vp mesg) w) = None
                   \<and> (\<exists>m tr. terminals w (run (handleRender ext vp mesg) w) = [(m, tr)]
                         \<and> has_id (rq_id mesg) m \<and> has_type ''err'' m)
              else crashed (run (handleRender ext vp mesg) w) = Some DataCloneError
                   \<and> terminals w (run (handleRender ext vp mesg) w) = [])
     \<and> terminals w (run (render_session ext vp mesg) w)
         = terminals w (run (handleRender ext vp mesg) w)"
proof -
  define w1 where "w1 = resume_state ext vp mesg w"
  define w2 where "w2 = run (handleRender ext vp mesg) w"
  define i where "i = rq_id mesg"
  from resume_state_facts [OF assms, of ext vp mesg]
  obtain ms where c1: "crashed w1 = None"
    and o1: "outbox w1 = outbox w @ map (\<lambda>m. (moduleId_mesg i m, None)) ms"
    unfolding w1_def i_def by blast
  have fin: "w2 = (case render_outcome ext vp mesg of
        Inl err \<Rightarrow> post_uncaught (err_mesg i err) None w1
      | Inr readable \<Rightarrow> try_start i (rq_context mesg) readable w1)"
    unfolding w2_def w1_def i_def using assms by (rule handleRender_final)
  have first: "(case render_outcome ext vp mesg of
            Inr readable \<Rightarrow>
              crashed w2 = None
              \<and> (\<exists>m tr. terminals w w2 = [(m, tr)] \<and> has_id i m
                    \<and> has_type (if cloneable_val [JStream readable] (heap w1 (rq_context mesg))
                                 then ''start'' else ''err'') m)
          | Inl err \<Rightarrow>
              if cloneable (heap w1) [] err
              then crashed w2 = None
                   \<and> (\<exists>m tr. terminals w w2 = [(m, tr)] \<and> has_id i m \<and> has_type ''err'' m)
              else crashed w2 = Some DataCloneError \<and> terminals w w2 = [])"
  proof (cases "render_outcome ext vp mesg")
    case (Inl err)
    show ?thesis
    proof (cases "cloneable (heap w1) [] err")
      case True
      with Inl fin have w2: "w2 = w1\<lparr>outbox := outbox w1 @ [(serialise (heap w1) (err_mesg i err), None)]\<rparr>"
        by (simp add: post_uncaught_err)
      then have "outbox w2 = outbox w @ (map (\<lambda>m. (moduleId_mesg i m, None)) ms
                   @ [(serialise (heap w1) (err_mesg i err), None)])"
        by (simp add: o1)
      then have "terminals w w2 = [(serialise (heap w1) (err_mesg i err), None)]"
        by (simp add: terminals_append filter_terminal_moduleIds terminal_serialise terminal_err)
      moreover have "has_id i (serialise (heap w1) (err_mesg i err))"
        by (simp add: has_id_serialise has_id_err)
      moreover have "has_type ''err'' (serialise (heap w1) (err_mesg i err))"
        by (simp add: has_type_serialise has_type_err)
      moreover have "crashed w2 = None" by (simp add: w2 c1)
      ultimately show ?thesis using Inl True by simp
    next
      case False
      with Inl fin have w2: "w2 = w1\<lparr>crashed := Some DataCloneError\<rparr>"
        by (simp add: post_uncaught_err)
      then have "outbox w2 = outbox w @ map (\<lambda>m. (moduleId_mesg i m, None)) ms"
        by (simp add: o1)
      then have "terminals w w2 = []"
        by (simp add: terminals_append filter_terminal_moduleIds)
      with w2 Inl False show ?thesis by simp
    qed
  next
    case (Inr readable)
    let ?c = "rq_context mesg"
    show ?thesis
    proof (cases "cloneable_val [JStream readable] (heap w1 ?c)")
      case True
      with Inr fin have w2: "w2 = freeze_context ?c
          (w1\<lparr>outbox := outbox w1 @ [(serialise (heap w1) (start_mesg i ?c readable),
                                       Some [JStream readable])]\<rparr>)"
        by (simp add: try_start_eq)
      then have "outbox w2 = outbox w @ (map (\<lambda>m. (moduleId_mesg i m, None)) ms
                   @ [(serialise (heap w1) (start_mesg i ?c readable), Some [JStream readable])])"
        by (simp add: o1 freeze_context_fields)
      then have "terminals w w2
          = [(serialise (heap w1) (start_mesg i ?c readable), Some [JStream readable])]"
        by (simp add: terminals_append filter_terminal_moduleIds terminal_serialise terminal_start)
      moreover have "has_id i (serialise (heap w1) (start_mesg i ?c readable))"
        by (simp add: has_id_serialise has_id_start)
      moreover have "has_type ''start'' (serialise (heap w1) (start_mesg i ?c readable))"
        by (simp add: has_type_serialise has_type_start)
      moreover have "crashed w2 = None" by (simp add: w2 c1 freeze_context_fields)
      ultimately show ?thesis using Inr True by simp
    next
      case False
      with Inr fin have w2: "w2 = w1\<lparr>outbox := outbox w1
          @ [(serialise (heap w1) (err_mesg i DataCloneError), None)]\<rparr>"
        by (simp add: try_start_eq)
      then have "outbox w2 = outbox w @ (map (\<lambda>m. (moduleId_mesg i m, None)) ms
                   @ [(serialise (heap w1) (err_mesg i DataCloneError), None)])"
        by (simp add: o1)
      then have "terminals w w2 = [(serialise (heap w1) (err_mesg i DataCloneError), None)]"
        by (simp add: terminals_append filter_terminal_moduleIds terminal_serialise terminal_err)
      moreover have "has_id i (serialise (heap w1) (err_mesg i DataCloneError))"
        by (simp add: has_id_serialise has_id_err)
      moreover have "has_type ''err'' (serialise (heap w1) (err_mesg i DataCloneError))"
        by (simp add: has_type_serialise has_type_err)
      moreover have "crashed w2 = None" by (simp add: w2 c1)
      ultimately show ?thesis using Inr False by simp
    qed
  qed
  have second: "terminals w (run (render_session ext vp mesg) w) = terminals w w2"
  proof (cases "crashed w2")
    case (Some e)
    then show ?thesis
      by (simp add: render_session_def run_append w2_def [symmetric] run_crashed)
  next
    case None
    have "\<exists>xs. outbox w2 = outbox w @ xs"
      using fin o1
      by (auto simp add: post_uncaught_err try_start_eq freeze_context_fields split: sum.splits)
    then obtain xs where x: "outbox w2 = outbox w @ xs" by blast
    show ?thesis
    proof (cases "loadEntries ext vp (rq_config mesg)")
      case (Inl err)
      have "run (render_session ext vp mesg) w = w2"
        by (simp add: render_session_def run_append w2_def handleRender_load_fails(3) [OF Inl])
      then show ?thesis by simp
    next
      case (Inr entries)
      from run_pipeline [OF None, of "rq_hasModuleIdCallback mesg" i "rq_context mesg"]
        handleRender_cases(3) [OF Inr refl refl]
      obtain ns where "outbox (run (render_aftermath ext vp mesg) w2)
          = outbox w2 @ map (\<lambda>m. (moduleId_mesg i m, None)) ns"
        unfolding i_def by auto
      then have "outbox (run (render_session ext vp mesg) w)
          = outbox w @ (xs @ map (\<lambda>m. (moduleId_mesg i m, None)) ns)"
        by (simp add: render_session_def run_append w2_def [symmetric] x)
      then show ?thesis
        using x by (simp add: terminals_append filter_terminal_moduleIds)
    qed
  qed
  from first second show ?thesis
    unfolding w1_def w2_def i_def by simp
qed

lemmas sample_simps = loadEntries_def sample_vp_def sample_ext_def sample_req_def sample_worker_def
  sample_context_def run_ok_def run_late_def run_fail_def run_function_def function_error_def
  not_found_def plain_error_def

lemma step_moduleIdCallback:
  "step (moduleIdCallback i m) w = w\<lparr>outbox := outbox w @ [(moduleId_mesg i m, None)]\<rparr>"
  by (simp add: moduleIdCallback_eq post_uncaught_def postMessage_def can_post_moduleId
      serialise_moduleId)

lemmas run_simps = handleRender_def render_session_def render_aftermath_def resume_state_def
  Let_def catch_err_def perform_def step_moduleIdCallback post_uncaught_err try_start_eq
  freeze_context_def render_outcome_def terminals_def new_posts_def

theorem handleRender_one_terminal_witness:
  "crashed sample_worker = None
   \<and> render_outcome (sample_ext run_ok (Inr None)) sample_vp (sample_req 1 ''render'') = Inr 7
   \<and> (\<exists>m tr. terminals sample_worker
                (run (handleRender (sample_ext run_ok (Inr None)) sample_vp (sample_req 1 ''render''))
                   sample_worker) = [(m, tr)]
          \<and> has_id 1 m \<and> has_type ''start'' m)"
proof -
  have c: "crashed sample_worker = None"
    by (simp add: sample_worker_def)
  have o: "render_outcome (sample_ext run_ok (Inr None)) sample_vp (sample_req 1 ''render'') = Inr 7"
    by (simp add: render_outcome_def sample_simps)
  have h: "cloneable_val [JStream 7]
      (heap (resume_state (sample_ext run_ok (Inr None)) sample_vp (sample_req 1 ''render'')
               sample_worker) (rq_context (sample_req 1 ''render'')))"
    by (simp add: run_simps sample_simps)
  have i: "rq_id (sample_req 1 ''render'') = 1"
    by (simp add: sample_req_def)
  from handleRender_one_terminal [OF c, of "sample_ext run_ok (Inr None)" sample_vp
      "sample_req 1 ''render''"]
  have "\<exists>m tr. terminals sample_worker
                (run (handleRender (sample_ext run_ok (Inr None)) sample_vp (sample_req 1 ''render''))
                   sample_worker) = [(m, tr)]
          \<and> has_id 1 m \<and> has_type ''start'' m"
    unfolding o using h i by simp
  with c o show ?thesis by (intro conjI)
qed

text \<open>The claim as it is written fails in two ways. A pipeline that rejects with an error that
  holds a function: the \<^verbatim>\<open>catch\<close> block cannot post it, no terminal message is posted and the
  worker ends. A pipeline that stores a function in the context map and resolves: the
  terminal message is \<^verbatim>\<open>err\<close> although \<^verbatim>\<open>renderRsc\<close> has resolved.\<close>

theorem handleRender_no_terminal_counterexample:
  "render_outcome (sample_ext (run_fail function_error) (Inr None)) sample_vp
      (sample_req 1 ''render'') = Inl function_error
   \<and> terminals sample_worker
       (run (handleRender (sample_ext (run_fail function_error) (Inr None)) sample_vp
               (sample_req 1 ''render'')) sample_worker) = []
   \<and> crashed (run (handleRender (sample_ext (run_fail function_error) (Inr None)) sample_vp
               (sample_req 1 ''render'')) sample_worker) = Some DataCloneError
   \<and> render_outcome (sample_ext run_function (Inr None)) sample_vp (sample_req 1 ''render'')
       = Inr 7
   \<and> map (has_type ''err'' \<circ> fst)
       (terminals sample_worker
          (run (handleRender (sample_ext run_function (Inr None)) sample_vp
                  (sample_req 1 ''render'')) sample_worker)) = [True]"
  by (simp add: run_simps sample_simps moduleId_mesg_not_terminal terminal_serialise terminal_err
      has_type_serialise has_type_err)

section \<open>Unknown messages\<close>

text \<open>
  Claim C8. A message whose \<^verbatim>\<open>type\<close> is neither \<^verbatim>\<open>render\<close> nor \<^verbatim>\<open>getSsrConfig\<close> has no
  effect: the listener calls no handler, nothing is posted, and the worker is left as it was.
\<close>

theorem unknown_type_ignored:
  assumes "rq_type mesg \<noteq> ''render''" and "rq_type mesg \<noteq> ''getSsrConfig''"
  shows "on_message ext vp mesg = [] \<and> run (on_message ext vp mesg) w = w"
  using assms by (simp add: on_message_def)

theorem unknown_type_ignored_witness:
  "rq_type (sample_req 3 ''ping'') \<noteq> ''render'' \<and> rq_type (sample_req 3 ''ping'') \<noteq> ''getSsrConfig''
   \<and> on_message (sample_ext run_ok (Inr None)) sample_vp (sample_req 3 ''ping'') = []
   \<and> run (on_message (sample_ext run_ok (Inr None)) sample_vp (sample_req 3 ''ping'')) sample_worker
       = sample_worker"
  using unknown_type_ignored [of "sample_req 3 ''ping''" "sample_ext run_ok (Inr None)" sample_vp sample_worker]
  by (simp add: sample_req_def)

section \<open>Module ids\<close>

lemma last_stretch_posts:
  assumes "crashed w1 = None"
    and "w2 = (case outcome of
                 Inl err \<Rightarrow> post_uncaught (err_mesg i err) None w1
               | Inr readable \<Rightarrow> try_start i c readable w1)"
  shows "\<exists>term. (term = [] \<or> (\<exists>t tr. term = [(t, tr)] \<and> terminal t \<and> has_id i t))
           \<and> outbox w2 = outbox w1 @ term"
proof (cases outcome)
  case (Inl err)
  show ?thesis
  proof (cases "cloneable (heap w1) [] err")
    case True
    with Inl assms(2) have "outbox w2 = outbox w1 @ [(serialise (heap w1) (err_mesg i err), None)]"
      by (simp add: post_uncaught_err)
    moreover have "terminal (serialise (heap w1) (err_mesg i err))"
      by (simp add: terminal_serialise terminal_err)
    moreover have "has_id i (serialise (heap w1) (err_mesg i err))"
      by (simp add: has_id_serialise has_id_err)
    ultimately show ?thesis by blast
  next
    case False
    with Inl assms(2) have "outbox w2 = outbox w1 @ []"
      by (simp add: post_uncaught_err)
    then show ?thesis by blast
  qed
next
  case (Inr readable)
  show ?thesis
  proof (cases "cloneable_val [JStream readable] (heap w1 c)")
    case True
    with Inr assms(2) have "outbox w2
        = outbox w1 @ [(serialise (heap w1) (start_mesg i c readable), Some [JStream readable])]"
      by (simp add: try_start_eq freeze_context_fields)
    moreover have "terminal (serialise (heap w1) (start_mesg i c readable))"
      by (simp add: terminal_serialise terminal_start)
    moreover have "has_id i (serialise (heap w1) (start_mesg i c readable))"
      by (simp add: has_id_serialise has_id_start)
    ultimately show ?thesis by blast
  next
    case False
    with Inr assms(2) have "outbox w2
        = outbox w1 @ [(serialise (heap w1) (err_mesg i DataCloneError), None)]"
      by (simp add: try_start_eq)
    moreover have "terminal (serialise (heap w1) (err_mesg i DataCloneError))"
      by (simp add: terminal_serialise terminal_err)
    moreover have "has_id i (serialise (heap w1) (err_mesg i DataCloneError))"
      by (simp add: has_id_serialise has_id_err)
    ultimately show ?thesis by blast
  qed
qed

text \<open>
  Claim C5, as the code has it. Take a render request with \<^verbatim>\<open>hasModuleIdCallback\<close> set whose
  pipeline is called, in a running worker. Each module id that the pipeline reports is posted as
  a \<^verbatim>\<open>moduleId\<close> message with the request's \<^verbatim>\<open>id\<close>, in the order of the reports. The ids
  reported before the handler resumes from \<^verbatim>\<open>await renderRsc(...)\<close> come before the terminal
  message, when there is one. The callback stays with the pipeline: the ids that it reports
  after the handler has returned are posted after the terminal message, as long as the worker
  runs.
\<close>

theorem moduleId_order:
  assumes "rq_hasModuleIdCallback mesg"
    and "loadEntries ext vp (rq_config mesg) = Inr entries"
    and "pr = renderRsc ext (renderRscArgs ext vp mesg entries)"
    and "crashed w = None"
  shows "\<exists>term. (term = [] \<or> (\<exists>t tr. term = [(t, tr)] \<and> terminal t \<and> has_id (rq_id mesg) t))
     \<and> new_posts w (run (handleRender ext vp mesg) w)
         = map (\<lambda>m. (moduleId_mesg (rq_id mesg) m, None)) (reported (before_resume pr)) @ term
     \<and> new_posts w (run (render_session ext vp mesg) w)
         = map (\<lambda>m. (moduleId_mesg (rq_id mesg) m, None)) (reported (before_resume pr)) @ term
           @ (if crashed (run (handleRender ext vp mesg) w) = None
              then map (\<lambda>m. (moduleId_mesg (rq_id mesg) m, None)) (reported (after_return pr))
              else [])"
proof -
  define i where "i = rq_id mesg"
  define c where "c = rq_context mesg"
  define pre where "pre = pipeline_effects
      (if rq_hasModuleIdCallback mesg then Some (moduleIdCallback (rq_id mesg)) else None)
      (rq_context mesg) (before_resume pr)"
  define w1 where "w1 = resume_state ext vp mesg w"
  define w2 where "w2 = run (handleRender ext vp mesg) w"
  have rs: "w1 = run pre w"
    unfolding w1_def by (rule handleRender_cases(2) [OF assms(2,3) pre_def])
  have c1: "crashed w1 = None"
    and o1: "outbox w1 = outbox w @ map (\<lambda>m. (moduleId_mesg i m, None)) (reported (before_resume pr))"
    using run_pipeline [OF assms(4), of "rq_hasModuleIdCallback mesg" i c "before_resume pr"]
      assms(1) rs
    by (simp_all add: pre_def i_def c_def)
  have fin: "w2 = (case render_outcome ext vp mesg of
        Inl err \<Rightarrow> post_uncaught (err_mesg i err) None w1
      | Inr readable \<Rightarrow> try_start i c readable w1)"
    unfolding w2_def w1_def i_def c_def using assms(4) by (rule handleRender_final)
  from last_stretch_posts [OF c1 fin]
  obtain "term" where t: "term = [] \<or> (\<exists>t tr. term = [(t, tr)] \<and> terminal t \<and> has_id i t)"
    and o2: "outbox w2 = outbox w1 @ term"
    by blast
  have n2: "new_posts w w2
      = map (\<lambda>m. (moduleId_mesg i m, None)) (reported (before_resume pr)) @ term"
    by (rule new_posts_append) (simp add: o2 o1)
  have aft: "render_aftermath ext vp mesg
      = pipeline_effects (if rq_hasModuleIdCallback mesg then Some (moduleIdCallback i) else None)
          c (after_return pr)"
    unfolding i_def c_def by (rule handleRender_cases(3) [OF assms(2,3) refl])
  have n3: "new_posts w (run (render_session ext vp mesg) w)
      = map (\<lambda>m. (moduleId_mesg i m, None)) (reported (before_resume pr)) @ term
        @ (if crashed w2 = None
           then map (\<lambda>m. (moduleId_mesg i m, None)) (reported (after_return pr)) else [])"
  proof (cases "crashed w2")
    case None
    from run_pipeline [OF None, of "rq_hasModuleIdCallback mesg" i c "after_return pr"] assms(1)
    have "outbox (run (render_aftermath ext vp mesg) w2)
        = outbox w2 @ map (\<lambda>m. (moduleId_mesg i m, None)) (reported (after_return pr))"
      by (simp add: aft)
    then have "outbox (run (render_session ext vp mesg) w)
        = outbox w @ (map (\<lambda>m. (moduleId_mesg i m, None)) (reported (before_resume pr)) @ term
            @ map (\<lambda>m. (moduleId_mesg i m, None)) (reported (after_return pr)))"
      by (simp add: render_session_def run_append w2_def [symmetric] o2 o1)
    then show ?thesis
      using None by (simp add: new_posts_append)
  next
    case (Some e)
    then have "run (render_session ext vp mesg) w = w2"
      by (simp add: render_session_def run_append w2_def [symmetric] run_crashed)
    with Some n2 show ?thesis by simp
  qed
  from t n2 n3 show ?thesis
    unfolding i_def w2_def by blast
qed

theorem moduleId_order_witness:
  "rq_hasModuleIdCallback (sample_req 1 ''render'')
   \<and> loadEntries (sample_ext run_ok (Inr None)) sample_vp (rq_config (sample_req 1 ''render''))
       = Inr (JString ''/appsrcentries.js'')
   \<and> crashed sample_worker = None
   \<and> (\<exists>term. (term = [] \<or> (\<exists>t tr. term = [(t, tr)] \<and> terminal t \<and> has_id 1 t))
         \<and> new_posts sample_worker
             (run (handleRender (sample_ext run_ok (Inr None)) sample_vp (sample_req 1 ''render''))
                sample_worker)
            = [(moduleId_mesg 1 ''m1'', None), (moduleId_mesg 1 ''m2'', None)] @ term)"
proof -
  have h1: "rq_hasModuleIdCallback (sample_req 1 ''render'')"
    by (simp add: sample_req_def)
  have h2: "loadEntries (sample_ext run_ok (Inr None)) sample_vp (rq_config (sample_req 1 ''render''))
       = Inr (JString ''/appsrcentries.js'')"
    by (simp add: sample_simps sample_config_def)
  have h3: "run_ok = renderRsc (sample_ext run_ok (Inr None))
      (renderRscArgs (sample_ext run_ok (Inr None)) sample_vp (sample_req 1 ''render'')
         (JString ''/appsrcentries.js''))"
    by (simp add: sample_ext_def)
  have h4: "crashed sample_worker = None"
    by (simp add: sample_worker_def)
  have r: "reported (before_resume run_ok) = [''m1'', ''m2'']"
    by (simp add: run_ok_def)
  have i: "rq_id (sample_req 1 ''render'') = 1"
    by (simp add: sample_req_def)
  from moduleId_order [OF h1 h2 h3 h4]
  have "\<exists>term. (term = [] \<or> (\<exists>t tr. term = [(t, tr)] \<and> terminal t \<and> has_id 1 t))
         \<and> new_posts sample_worker
             (run (handleRender (sample_ext run_ok (Inr None)) sample_vp (sample_req 1 ''render''))
                sample_worker)
            = [(moduleId_mesg 1 ''m1'', None), (moduleId_mesg 1 ''m2'', None)] @ term"
    unfolding r i by auto
  with h1 h2 h4 show ?thesis by (intro conjI)
qed

text \<open>The claim as it is written fails for a pipeline that reports a module id while the
  stream is produced: the \<^verbatim>\<open>moduleId\<close> message for \<open>m2\<close> follows the \<^verbatim>\<open>start\<close> message.\<close>

theorem moduleId_after_start_counterexample:
  "map (has_type ''moduleId'' \<circ> fst)
     (new_posts sample_worker
        (run (render_session (sample_ext run_late (Inr None)) sample_vp (sample_req 1 ''render''))
           sample_worker)) = [True, False, True]
   \<and> map (has_type ''start'' \<circ> fst)
     (new_posts sample_worker
        (run (render_session (sample_ext run_late (Inr None)) sample_vp (sample_req 1 ''render''))
           sample_worker)) = [False, True, False]"
  by (simp add: run_simps sample_simps has_type_def moduleId_mesg_def serialise_def start_mesg_def)

section \<open>Status codes\<close>



section \<open>Frozen and unfrozen context maps\<close>










section \<open>The context map after a successful render\<close>




section \<open>The context map after a failed render\<close>



section \<open>Responses of getSsrConfig requests\<close>

lemma can_post_ssr_None: "can_post h (ssr_mesg i None) (ssr_transfer None)"
  by (auto simp add: can_post_def transfer_items_def ball_ran ssr_mesg_def ssr_transfer_def
      split: if_splits)

lemma can_post_ssr_Some:
  "can_post h (ssr_mesg i (Some cfg)) (ssr_transfer (Some cfg))
     = (transferable (get_field cfg ''body'')
        \<and> (\<forall>v\<in>ran cfg. cloneable h [get_field cfg ''body''] v))"
proof -
  have "(\<forall>k v. ([''id'' \<mapsto> JNumber i, ''type'' \<mapsto> JString ''ssrConfig''] ++ cfg) k = Some v
            \<longrightarrow> cloneable h [get_field cfg ''body''] v)
      = (\<forall>k v. cfg k = Some v \<longrightarrow> cloneable h [get_field cfg ''body''] v)"
    (is "?l = ?r")
  proof
    assume l: ?l
    show ?r
    proof (intro allI impI)
      fix k v assume "cfg k = Some v"
      then have "([''id'' \<mapsto> JNumber i, ''type'' \<mapsto> JString ''ssrConfig''] ++ cfg) k = Some v"
        by (simp add: map_add_def)
      from l [rule_format, OF this] show "cloneable h [get_field cfg ''body''] v" .
    qed
  next
    assume r: ?r
    show ?l
    proof (intro allI impI)
      fix k v
      assume a: "([''id'' \<mapsto> JNumber i, ''type'' \<mapsto> JString ''ssrConfig''] ++ cfg) k = Some v"
      show "cloneable h [get_field cfg ''body''] v"
      proof (cases "cfg k")
        case (Some v')
        with a have "v = v'" by (simp add: map_add_def)
        with Some r [rule_format, of k v'] show ?thesis by simp
      next
        case None
        with a have "v = JNumber i \<or> v = JString ''ssrConfig''"
          by (auto simp add: map_add_def split: if_splits)
        then show ?thesis by auto
      qed
    qed
  qed
  then show ?thesis
    by (simp add: can_post_def transfer_items_def ball_ran ssr_mesg_def ssr_transfer_def)
qed

lemma try_ssrConfig_eq:
  "try_ssrConfig i res w =
     (if can_post (heap w) (ssr_mesg i res) (ssr_transfer res)
      then w\<lparr>outbox := outbox w @ [(serialise (heap w) (ssr_mesg i res), ssr_transfer res)]\<rparr>
      else w\<lparr>outbox := outbox w @ [(serialise (heap w) (err_mesg i DataCloneError), None)]\<rparr>)"
  by (simp add: try_ssrConfig_def postMessage_def post_uncaught_err cloneable_DataCloneError)

lemma handleGetSsrConfig_final:
  assumes "crashed w = None" and "ssr_outcome ext vp mesg = Inr res"
  shows "run (handleGetSsrConfig ext vp mesg) w = try_ssrConfig (rq_id mesg) res w"
  using assms
  by (auto simp add: ssr_outcome_def handleGetSsrConfig_def Let_def perform_def split: sum.splits)

text \<open>
  Claim C4, as the code has it, in a running worker. When the resolver gives an object that has
  no property named \<^verbatim>\<open>id\<close> or \<^verbatim>\<open>type\<close>, whose \<^verbatim>\<open>body\<close> is a stream and whose property values
  can be cloned once the body is transferred, the handler posts one message: it has the request's
  \<^verbatim>\<open>id\<close>, the type \<^verbatim>\<open>ssrConfig\<close>, every property of the resolver's object and no other, and
  the transfer list holds the object's \<^verbatim>\<open>body\<close>. When the resolver gives an object that cannot
  be posted in this way, \<^verbatim>\<open>postMessage\<close> throws inside the \<^verbatim>\<open>try\<close> block and the one message
  posted is the \<^verbatim>\<open>err\<close> message with the request's \<^verbatim>\<open>id\<close>. When the resolver gives nothing, the
  handler posts one message that has only the request's \<^verbatim>\<open>id\<close> and the type \<^verbatim>\<open>noSsrConfig\<close>,
  without a transfer list.
\<close>

theorem ssrConfig_response:
  assumes "crashed w = None"
  shows "(ssr_outcome ext vp mesg = Inr (Some cfg) \<and> cfg ''id'' = None \<and> cfg ''type'' = None
          \<and> transferable (get_field cfg ''body'')
          \<and> (\<forall>v\<in>ran cfg. cloneable (heap w) [get_field cfg ''body''] v) \<longrightarrow>
      (\<exists>m. new_posts w (run (handleGetSsrConfig ext vp mesg) w)
               = [(m, Some [get_field cfg ''body''])]
         \<and> has_id (rq_id mesg) m \<and> has_type ''ssrConfig'' m
         \<and> (\<forall>k\<in>dom cfg. m k = map_option (clone (heap w)) (cfg k))
         \<and> dom m = {''id'', ''type''} \<union> dom cfg))
   \<and> (ssr_outcome ext vp mesg = Inr (Some cfg)
          \<and> \<not> (transferable (get_field cfg ''body'')
                \<and> (\<forall>v\<in>ran cfg. cloneable (heap w) [get_field cfg ''body''] v)) \<longrightarrow>
      (\<exists>m. new_posts w (run (handleGetSsrConfig ext vp mesg) w) = [(m, None)]
         \<and> has_id (rq_id mesg) m \<and> has_type ''err'' m))
   \<and> (ssr_outcome ext vp mesg = Inr None \<longrightarrow>
        new_posts w (run (handleGetSsrConfig ext vp mesg) w)
          = [([''id'' \<mapsto> JNumber (rq_id mesg), ''type'' \<mapsto> JString ''noSsrConfig''], None)])"
proof (intro conjI impI)
  assume a: "ssr_outcome ext vp mesg = Inr (Some cfg) \<and> cfg ''id'' = None \<and> cfg ''type'' = None
          \<and> transferable (get_field cfg ''body'')
          \<and> (\<forall>v\<in>ran cfg. cloneable (heap w) [get_field cfg ''body''] v)"
  define m where "m = serialise (heap w) (ssr_mesg (rq_id mesg) (Some cfg))"
  have cp: "can_post (heap w) (ssr_mesg (rq_id mesg) (Some cfg)) (ssr_transfer (Some cfg))"
    using a by (simp add: can_post_ssr_Some)
  have "try_ssrConfig (rq_id mesg) (Some cfg) w
      = w\<lparr>outbox := outbox w @ [(m, ssr_transfer (Some cfg))]\<rparr>"
    by (simp only: try_ssrConfig_eq cp if_True m_def)
  then have "run (handleGetSsrConfig ext vp mesg) w
      = w\<lparr>outbox := outbox w @ [(m, Some [get_field cfg ''body''])]\<rparr>"
    using a handleGetSsrConfig_final [OF assms, of ext vp mesg "Some cfg"]
    by (simp add: ssr_transfer_def)
  then have n: "new_posts w (run (handleGetSsrConfig ext vp mesg) w)
      = [(m, Some [get_field cfg ''body''])]"
    by (simp add: new_posts_def)
  have i: "has_id (rq_id mesg) m" and t: "has_type ''ssrConfig'' m"
    using a by (simp_all add: has_id_def has_type_def m_def serialise_def ssr_mesg_def map_add_def)
  have f: "\<forall>k\<in>dom cfg. m k = map_option (clone (heap w)) (cfg k)"
    by (auto simp add: m_def serialise_def ssr_mesg_def map_add_def)
  have d: "dom m = {''id'', ''type''} \<union> dom cfg"
    by (auto simp add: m_def serialise_def ssr_mesg_def map_add_def dom_def split: option.splits)
  from n i t f d
  show "\<exists>m. new_posts w (run (handleGetSsrConfig ext vp mesg) w)
               = [(m, Some [get_field cfg ''body''])]
         \<and> has_id (rq_id mesg) m \<and> has_type ''ssrConfig'' m
         \<and> (\<forall>k\<in>dom cfg. m k = map_option (clone (heap w)) (cfg k))
         \<and> dom m = {''id'', ''type''} \<union> dom cfg"
    by blast
next
  assume a: "ssr_outcome ext vp mesg = Inr (Some cfg)
          \<and> \<not> (transferable (get_field cfg ''body'')
                \<and> (\<forall>v\<in>ran cfg. cloneable (heap w) [get_field cfg ''body''] v))"
  define m where "m = serialise (heap w) (err_mesg (rq_id mesg) DataCloneError)"
  have cp: "\<not> can_post (heap w) (ssr_mesg (rq_id mesg) (Some cfg)) (ssr_transfer (Some cfg))"
    using a by (simp add: can_post_ssr_Some)
  have "try_ssrConfig (rq_id mesg) (Some cfg) w = w\<lparr>outbox := outbox w @ [(m, None)]\<rparr>"
    by (simp only: try_ssrConfig_eq cp if_False m_def)
  then have "run (handleGetSsrConfig ext vp mesg) w = w\<lparr>outbox := outbox w @ [(m, None)]\<rparr>"
    using a handleGetSsrConfig_final [OF assms, of ext vp mesg "Some cfg"] by simp
  then have "new_posts w (run (handleGetSsrConfig ext vp mesg) w) = [(m, None)]"
    by (simp add: new_posts_def)
  moreover have "has_id (rq_id mesg) m" "has_type ''err'' m"
    by (simp_all add: m_def has_id_serialise has_id_err has_type_serialise has_type_err)
  ultimately show "\<exists>m. new_posts w (run (handleGetSsrConfig ext vp mesg) w) = [(m, None)]
         \<and> has_id (rq_id mesg) m \<and> has_type ''err'' m"
    by blast
next
  assume a: "ssr_outcome ext vp mesg = Inr None"
  have s: "serialise (heap w) (ssr_mesg (rq_id mesg) None)
      = [''id'' \<mapsto> JNumber (rq_id mesg), ''type'' \<mapsto> JString ''noSsrConfig'']"
    by (rule ext) (simp add: serialise_def ssr_mesg_def)
  have "try_ssrConfig (rq_id mesg) None w
      = w\<lparr>outbox := outbox w @ [(serialise (heap w) (ssr_mesg (rq_id mesg) None),
                                     ssr_transfer None)]\<rparr>"
    by (simp only: try_ssrConfig_eq can_post_ssr_None if_True)
  then have "run (handleGetSsrConfig ext vp mesg) w
      = w\<lparr>outbox := outbox w
            @ [([''id'' \<mapsto> JNumber (rq_id mesg), ''type'' \<mapsto> JString ''noSsrConfig''], None)]\<rparr>"
    using handleGetSsrConfig_final [OF assms a]
    by (simp add: s ssr_transfer_def)
  then show "new_posts w (run (handleGetSsrConfig ext vp mesg) w)
      = [([''id'' \<mapsto> JNumber (rq_id mesg), ''type'' \<mapsto> JString ''noSsrConfig''], None)]"
    by (simp add: new_posts_def)
qed

theorem ssrConfig_response_witness:
  "crashed sample_worker = None
   \<and> ssr_outcome (sample_ext run_ok (Inr (Some [''input'' \<mapsto> JString ''about'', ''body'' \<mapsto> JStream 9])))
        sample_vp (sample_req 2 ''getSsrConfig'')
       = Inr (Some [''input'' \<mapsto> JString ''about'', ''body'' \<mapsto> JStream 9])
   \<and> transferable (get_field [''input'' \<mapsto> JString ''about'', ''body'' \<mapsto> JStream 9] ''body'')
   \<and> (\<exists>m. new_posts sample_worker
              (run (handleGetSsrConfig
                      (sample_ext run_ok
                         (Inr (Some [''input'' \<mapsto> JString ''about'', ''body'' \<mapsto> JStream 9])))
                      sample_vp (sample_req 2 ''getSsrConfig'')) sample_worker)
             = [(m, Some [JStream 9])]
          \<and> has_id 2 m \<and> has_type ''ssrConfig'' m \<and> m ''input'' = Some (JString ''about''))
   \<and> ssr_outcome (sample_ext run_ok (Inr None)) sample_vp (sample_req 2 ''getSsrConfig'') = Inr None
   \<and> new_posts sample_worker
        (run (handleGetSsrConfig (sample_ext run_ok (Inr None)) sample_vp
                (sample_req 2 ''getSsrConfig'')) sample_worker)
       = [([''id'' \<mapsto> JNumber 2, ''type'' \<mapsto> JString ''noSsrConfig''], None)]"
proof -
  define cfg :: js_object where "cfg = [''input'' \<mapsto> JString ''about'', ''body'' \<mapsto> JStream 9]"
  have c: "crashed sample_worker = None"
    by (simp add: sample_worker_def)
  have o: "ssr_outcome (sample_ext run_ok (Inr (Some cfg))) sample_vp (sample_req 2 ''getSsrConfig'')
      = Inr (Some cfg)"
    by (simp add: ssr_outcome_def sample_simps)
  have b: "get_field cfg ''body'' = JStream 9"
    by (simp add: cfg_def get_field_def)
  have k: "cfg ''id'' = None" "cfg ''type'' = None" "cfg ''input'' = Some (JString ''about'')"
    by (simp_all add: cfg_def)
  have t: "transferable (get_field cfg ''body'')"
    by (simp add: b)
  have v: "\<forall>v\<in>ran cfg. cloneable (heap sample_worker) [get_field cfg ''body''] v"
    unfolding ball_ran b by (auto simp add: cfg_def split: if_splits)
  have i: "rq_id (sample_req 2 ''getSsrConfig'') = 2"
    by (simp add: sample_req_def)
  have hyp: "ssr_outcome (sample_ext run_ok (Inr (Some cfg))) sample_vp
        (sample_req 2 ''getSsrConfig'') = Inr (Some cfg) \<and> cfg ''id'' = None \<and> cfg ''type'' = None
      \<and> transferable (get_field cfg ''body'')
      \<and> (\<forall>v\<in>ran cfg. cloneable (heap sample_worker) [get_field cfg ''body''] v)"
    using o k(1,2) t v by (intro conjI)
  from ssrConfig_response [OF c, of "sample_ext run_ok (Inr (Some cfg))" sample_vp
      "sample_req 2 ''getSsrConfig''" cfg, THEN conjunct1, rule_format, OF hyp]
  obtain m where n: "new_posts sample_worker
        (run (handleGetSsrConfig (sample_ext run_ok (Inr (Some cfg))) sample_vp
                (sample_req 2 ''getSsrConfig'')) sample_worker) = [(m, Some [get_field cfg ''body''])]"
    and hi: "has_id (rq_id (sample_req 2 ''getSsrConfig'')) m" and ht: "has_type ''ssrConfig'' m"
    and f: "\<forall>k\<in>dom cfg. m k = map_option (clone (heap sample_worker)) (cfg k)"
    by (elim exE conjE)
  have "''input'' \<in> dom cfg"
    using k(3) by (simp add: dom_def)
  with f have "m ''input'' = map_option (clone (heap sample_worker)) (cfg ''input'')"
    by (rule bspec)
  then have mi: "m ''input'' = Some (JString ''about'')"
    by (simp add: k(3))
  from n hi ht mi have first: "\<exists>m. new_posts sample_worker
        (run (handleGetSsrConfig (sample_ext run_ok (Inr (Some cfg))) sample_vp
                (sample_req 2 ''getSsrConfig'')) sample_worker) = [(m, Some [JStream 9])]
      \<and> has_id 2 m \<and> has_type ''ssrConfig'' m \<and> m ''input'' = Some (JString ''about'')"
    unfolding b i by (intro exI [of _ m] conjI)
  have o2: "ssr_outcome (sample_ext run_ok (Inr None)) sample_vp (sample_req 2 ''getSsrConfig'')
      = Inr None"
    by (simp add: ssr_outcome_def sample_simps)
  from ssrConfig_response [OF c, of "sample_ext run_ok (Inr None)" sample_vp
      "sample_req 2 ''getSsrConfig''", THEN conjunct2, THEN conjunct2, rule_format, OF o2]
  have second: "new_posts sample_worker
        (run (handleGetSsrConfig (sample_ext run_ok (Inr None)) sample_vp
                (sample_req 2 ''getSsrConfig'')) sample_worker)
       = [([''id'' \<mapsto> JNumber 2, ''type'' \<mapsto> JString ''noSsrConfig''], None)]"
    unfolding i .
  from c o t first o2 second show ?thesis
    unfolding cfg_def by (intro conjI)
qed




text \<open>The claim as it is written fails in two ways. A resolver whose object has a property
  named \<^verbatim>\<open>type\<close>: the one message that is posted is neither \<^verbatim>\<open>ssrConfig\<close> nor
  \<^verbatim>\<open>noSsrConfig\<close>. A resolver whose object holds a second stream next to its body: that stream
  is not in the transfer list, \<^verbatim>\<open>postMessage\<close> throws, and the one message that is posted is
  \<^verbatim>\<open>err\<close>.\<close>

theorem ssrConfig_type_counterexample:
  "map (has_type ''ssrConfig'' \<circ> fst)
     (new_posts sample_worker
        (run (handleGetSsrConfig
                (sample_ext run_ok (Inr (Some [''type'' \<mapsto> JString ''page'', ''body'' \<mapsto> JStream 9])))
                sample_vp (sample_req 2 ''getSsrConfig'')) sample_worker)) = [False]
   \<and> map (has_type ''noSsrConfig'' \<circ> fst)
     (new_posts sample_worker
        (run (handleGetSsrConfig
                (sample_ext run_ok (Inr (Some [''type'' \<mapsto> JString ''page'', ''body'' \<mapsto> JStream 9])))
                sample_vp (sample_req 2 ''getSsrConfig'')) sample_worker)) = [False]
   \<and> map (has_type ''err'' \<circ> fst)
     (new_posts sample_worker
        (run (handleGetSsrConfig
                (sample_ext run_ok (Inr (Some [''body'' \<mapsto> JStream 9, ''extra'' \<mapsto> JStream 10])))
                sample_vp (sample_req 2 ''getSsrConfig'')) sample_worker)) = [True]"
proof -
  define cfg :: js_object where "cfg = [''type'' \<mapsto> JString ''page'', ''body'' \<mapsto> JStream 9]"
  define cfg2 :: js_object where "cfg2 = [''body'' \<mapsto> JStream 9, ''extra'' \<mapsto> JStream 10]"
  have c: "crashed sample_worker = None"
    by (simp add: sample_worker_def)
  have o: "ssr_outcome (sample_ext run_ok (Inr (Some x))) sample_vp (sample_req 2 ''getSsrConfig'')
      = Inr (Some x)" for x
    by (simp add: ssr_outcome_def sample_simps)
  have b: "get_field cfg ''body'' = JStream 9" "get_field cfg2 ''body'' = JStream 9"
    by (simp_all add: cfg_def cfg2_def get_field_def)
  have "\<forall>v\<in>ran cfg. cloneable (heap sample_worker) [get_field cfg ''body''] v"
    unfolding ball_ran b by (auto simp add: cfg_def split: if_splits)
  then have cp: "can_post (heap sample_worker) (ssr_mesg 2 (Some cfg)) (ssr_transfer (Some cfg))"
    by (simp add: can_post_ssr_Some b)
  have "cfg2 ''extra'' = Some (JStream 10)"
    by (simp add: cfg2_def)
  then have "JStream 10 \<in> ran cfg2"
    by (rule ranI)
  moreover have "\<not> cloneable (heap sample_worker) [get_field cfg2 ''body''] (JStream 10)"
    by (simp add: b)
  ultimately have cp2: "\<not> can_post (heap sample_worker) (ssr_mesg 2 (Some cfg2))
      (ssr_transfer (Some cfg2))"
    unfolding can_post_ssr_Some by blast
  have r1: "new_posts sample_worker
      (run (handleGetSsrConfig (sample_ext run_ok (Inr (Some cfg))) sample_vp
              (sample_req 2 ''getSsrConfig'')) sample_worker)
      = [(serialise (heap sample_worker) (ssr_mesg 2 (Some cfg)), ssr_transfer (Some cfg))]"
    using handleGetSsrConfig_final [OF c o, of cfg] cp
    by (simp add: try_ssrConfig_eq new_posts_def sample_req_def)
  have r2: "new_posts sample_worker
      (run (handleGetSsrConfig (sample_ext run_ok (Inr (Some cfg2))) sample_vp
              (sample_req 2 ''getSsrConfig'')) sample_worker)
      = [(serialise (heap sample_worker) (err_mesg 2 DataCloneError), None)]"
    using handleGetSsrConfig_final [OF c o, of cfg2] cp2
    by (simp add: try_ssrConfig_eq new_posts_def sample_req_def)
  have t1: "\<not> has_type ''ssrConfig'' (serialise (heap sample_worker) (ssr_mesg 2 (Some cfg)))"
    and t2: "\<not> has_type ''noSsrConfig'' (serialise (heap sample_worker) (ssr_mesg 2 (Some cfg)))"
    by (simp_all add: has_type_def serialise_def ssr_mesg_def map_add_def cfg_def)
  have t3: "has_type ''err'' (serialise (heap sample_worker) (err_mesg 2 DataCloneError))"
    by (simp add: has_type_serialise has_type_err)
  from r1 r2 t1 t2 t3 show ?thesis
    unfolding cfg_def cfg2_def by simp
qed

section \<open>Requests in flight at the same time\<close>

lemma filter_posted_interleave_left:
  assumes "\<forall>m\<in>set (posted xs). P m" and "\<forall>m\<in>set (posted ys). \<not> P m"
  shows "filter P (posted (interleave sched xs ys)) = posted xs"
  using assms
proof (induction sched xs ys rule: interleave.induct)
  case (1 sched ys)
  then show ?case by (simp add: filter_empty_conv)
next
  case (2 sched x xs)
  then show ?case by (simp add: filter_id_conv)
next
  case (3 x xs y ys)
  have "filter P (posted (x # xs)) = posted (x # xs)"
    using "3.prems"(1) by (simp add: filter_id_conv)
  moreover have "filter P (posted (y # ys)) = []"
    using "3.prems"(2) by (simp add: filter_empty_conv)
  ultimately show ?case
    using posted_append [of "x # xs" "y # ys"] by simp
next
  case (4 sched x xs y ys)
  then show ?case by (cases x) simp_all
next
  case (5 sched x xs y ys)
  then show ?case by (cases y) simp_all
qed

lemma filter_posted_interleave_right:
  assumes "\<forall>m\<in>set (posted ys). P m" and "\<forall>m\<in>set (posted xs). \<not> P m"
  shows "filter P (posted (interleave sched xs ys)) = posted ys"
  using assms
proof (induction sched xs ys rule: interleave.induct)
  case (1 sched ys)
  then show ?case by (simp add: filter_id_conv)
next
  case (2 sched x xs)
  then show ?case by (simp add: filter_empty_conv)
next
  case (3 x xs y ys)
  have "filter P (posted (x # xs)) = []"
    using "3.prems"(2) by (simp add: filter_empty_conv)
  moreover have "filter P (posted (y # ys)) = posted (y # ys)"
    using "3.prems"(1) by (simp add: filter_id_conv)
  ultimately show ?case
    using posted_append [of "x # xs" "y # ys"] by simp
next
  case (4 sched x xs y ys)
  then show ?case by (cases x) simp_all
next
  case (5 sched x xs y ys)
  then show ?case by (cases y) simp_all
qed

lemma own_id_pipeline:
  "m \<in> set (posted (pipeline_effects (if b then Some (moduleIdCallback i) else None) c acts))
   \<Longrightarrow> has_id i m"
  by (cases b) (auto simp add: posted_pipeline_None posted_pipeline_Some moduleId_mesg_id)

lemma own_id_render:
  assumes "m \<in> set (posted (render_session ext vp mesg))"
  shows "has_id (rq_id mesg) m"
proof (cases "loadEntries ext vp (rq_config mesg)")
  case (Inl err)
  with assms show ?thesis
    by (simp add: render_session_def render_aftermath_def handleRender_def Let_def catch_err_def
        has_id_err)
next
  case (Inr entries)
  define pr where "pr = renderRsc ext (renderRscArgs ext vp mesg entries)"
  define cb where "cb = (if rq_hasModuleIdCallback mesg then Some (moduleIdCallback (rq_id mesg)) else None)"
  define ts where "ts = (case settles pr of
                           Inl err \<Rightarrow> [err_mesg (rq_id mesg) err]
                         | Inr readable \<Rightarrow> [start_mesg (rq_id mesg) (rq_context mesg) readable,
                                           err_mesg (rq_id mesg) DataCloneError])"
  have p: "posted (render_session ext vp mesg)
      = posted (pipeline_effects cb (rq_context mesg) (before_resume pr)) @ ts
        @ posted (pipeline_effects cb (rq_context mesg) (after_return pr))"
    using Inr
    by (simp add: render_session_def render_aftermath_def handleRender_def Let_def catch_err_def
        posted_append pr_def cb_def ts_def split: sum.splits)
  have "\<forall>t\<in>set ts. has_id (rq_id mesg) t"
    by (simp add: ts_def has_id_err has_id_start split: sum.splits)
  with assms p show ?thesis
    using own_id_pipeline [of m "rq_hasModuleIdCallback mesg" "rq_id mesg" "rq_context mesg"]
    by (auto simp add: cb_def)
qed

lemma own_id_ssr:
  assumes "m \<in> set (posted (handleGetSsrConfig ext vp mesg))"
    and "rq_type mesg = ''getSsrConfig''" and "resolver_keeps ''id'' ext vp mesg"
  shows "has_id (rq_id mesg) m"
proof (cases "ssr_outcome ext vp mesg")
  case (Inl err)
  then have "handleGetSsrConfig ext vp mesg = catch_err (rq_id mesg) err"
    by (auto simp add: ssr_outcome_def handleGetSsrConfig_def Let_def split: sum.splits)
  with assms(1) show ?thesis by (simp add: catch_err_def has_id_err)
next
  case (Inr res)
  then have h: "handleGetSsrConfig ext vp mesg = [TrySsrConfig (rq_id mesg) res]"
    by (auto simp add: ssr_outcome_def handleGetSsrConfig_def Let_def split: sum.splits)
  show ?thesis
  proof (cases res)
    case None
    with assms(1) h show ?thesis
      by (auto simp add: ssr_mesg_def has_id_def err_mesg_fields)
  next
    case (Some cfg)
    have "cfg ''id'' = None"
      using assms(2,3) Inr Some by (simp add: resolver_keeps_def)
    with assms(1) h Some show ?thesis
      by (auto simp add: ssr_mesg_def has_id_def map_add_def err_mesg_fields)
  qed
qed

lemma own_id_session:
  assumes "m \<in> set (posted (session ext vp mesg))" and "resolver_keeps ''id'' ext vp mesg"
  shows "has_id (rq_id mesg) m"
proof (cases "rq_type mesg = ''render''")
  case True
  with assms(1) show ?thesis by (simp add: session_def own_id_render)
next
  case False
  show ?thesis
  proof (cases "rq_type mesg = ''getSsrConfig''")
    case True
    with False assms(1) have "m \<in> set (posted (handleGetSsrConfig ext vp mesg))"
      by (simp add: session_def on_message_def)
    from own_id_ssr [OF this True assms(2)] show ?thesis .
  next
    case False
    with \<open>rq_type mesg \<noteq> ''render''\<close> assms(1) show ?thesis
      by (simp add: session_def on_message_def)
  qed
qed

lemma has_id_unique: "has_id i m \<Longrightarrow> i \<noteq> j \<Longrightarrow> \<not> has_id j m"
  by (auto simp add: has_id_def)

subsection \<open>What reaches the outbox\<close>

lemma perform_outbox:
  "\<exists>new. outbox (perform e w) = outbox w @ new
     \<and> (\<forall>p\<in>set new. \<exists>m\<in>set (posted [e]). \<exists>h. fst p = serialise h m)"
proof (cases "crashed w = None")
  case False
  then have "perform e w = w" by (auto simp add: perform_def)
  then have "outbox (perform e w) = outbox w @ []" by simp
  then show ?thesis by (intro exI [of _ "[]"]) simp
next
  case True
  show ?thesis
  proof (cases e)
    case (PostMessage mesg tr)
    show ?thesis
    proof (cases "can_post (heap w) mesg tr")
      case c: True
      with True PostMessage have "outbox (perform e w) = outbox w @ [(serialise (heap w) mesg, tr)]"
        by (simp add: perform_def post_uncaught_def postMessage_def)
      with PostMessage show ?thesis
        by (intro exI [of _ "[(serialise (heap w) mesg, tr)]"]) auto
    next
      case c: False
      with True PostMessage have "outbox (perform e w) = outbox w @ []"
        by (simp add: perform_def post_uncaught_def postMessage_def)
      then show ?thesis by (intro exI [of _ "[]"]) simp
    qed
  next
    case (Assign r ks v)
    then have "outbox (perform e w) = outbox w @ []"
      by (simp add: perform_Assign_fields)
    then show ?thesis by (intro exI [of _ "[]"]) simp
  next
    case (TryStart i c r)
    show ?thesis
    proof (cases "cloneable_val [JStream r] (heap w c)")
      case c: True
      with True TryStart have "outbox (perform e w)
          = outbox w @ [(serialise (heap w) (start_mesg i c r), Some [JStream r])]"
        by (simp add: perform_def try_start_eq freeze_context_fields)
      with TryStart show ?thesis
        by (intro exI [of _ "[(serialise (heap w) (start_mesg i c r), Some [JStream r])]"]) auto
    next
      case c: False
      with True TryStart have "outbox (perform e w)
          = outbox w @ [(serialise (heap w) (err_mesg i DataCloneError), None)]"
        by (simp add: perform_def try_start_eq)
      with TryStart show ?thesis
        by (intro exI [of _ "[(serialise (heap w) (err_mesg i DataCloneError), None)]"]) auto
    qed
  next
    case (TrySsrConfig i res)
    show ?thesis
    proof (cases "can_post (heap w) (ssr_mesg i res) (ssr_transfer res)")
      case c: True
      with True TrySsrConfig have "outbox (perform e w)
          = outbox w @ [(serialise (heap w) (ssr_mesg i res), ssr_transfer res)]"
        by (simp add: perform_def try_ssrConfig_eq)
      with TrySsrConfig show ?thesis
        by (intro exI [of _ "[(serialise (heap w) (ssr_mesg i res), ssr_transfer res)]"]) auto
    next
      case c: False
      with True TrySsrConfig have "outbox (perform e w)
          = outbox w @ [(serialise (heap w) (err_mesg i DataCloneError), None)]"
        by (simp add: perform_def try_ssrConfig_eq)
      with TrySsrConfig show ?thesis
        by (intro exI [of _ "[(serialise (heap w) (err_mesg i DataCloneError), None)]"]) auto
    qed
  qed
qed

lemma run_outbox:
  "\<exists>new. outbox (run es w) = outbox w @ new
     \<and> (\<forall>p\<in>set new. \<exists>m\<in>set (posted es). \<exists>h. fst p = serialise h m)"
proof (induction es arbitrary: w)
  case Nil
  show ?case by simp
next
  case (Cons e es)
  from perform_outbox [of e w] obtain n1 where
    o1: "outbox (perform e w) = outbox w @ n1"
    and p1: "\<forall>p\<in>set n1. \<exists>m\<in>set (posted [e]). \<exists>h. fst p = serialise h m"
    by blast
  from Cons.IH [of "perform e w"] obtain n2 where
    o2: "outbox (run es (perform e w)) = outbox (perform e w) @ n2"
    and p2: "\<forall>p\<in>set n2. \<exists>m\<in>set (posted es). \<exists>h. fst p = serialise h m"
    by blast
  have s: "set (posted (e # es)) = set (posted [e]) \<union> set (posted es)"
    using posted_append [of "[e]" es] by simp
  have "outbox (run (e # es) w) = outbox w @ (n1 @ n2)"
    by (simp add: o1 o2)
  moreover have "\<forall>p\<in>set (n1 @ n2). \<exists>m\<in>set (posted (e # es)). \<exists>h. fst p = serialise h m"
  proof
    fix p assume "p \<in> set (n1 @ n2)"
    then consider "p \<in> set n1" | "p \<in> set n2" by auto
    then show "\<exists>m\<in>set (posted (e # es)). \<exists>h. fst p = serialise h m"
    proof cases
      case 1
      with p1 show ?thesis unfolding s by blast
    next
      case 2
      with p2 show ?thesis unfolding s by blast
    qed
  qed
  ultimately show ?case by blast
qed

lemma set_posted_interleave:
  "set (posted (interleave sched xs ys)) \<subseteq> set (posted xs) \<union> set (posted ys)"
proof (induction sched xs ys rule: interleave.induct)
  case (3 x xs y ys)
  show ?case using posted_append [of "x # xs" "y # ys"] by simp
next
  case (4 sched x xs y ys)
  then show ?case by (cases x) auto
next
  case (5 sched x xs y ys)
  then show ?case by (cases y) auto
qed simp_all

text \<open>
  Claim C2, as the code has it. Take two requests with distinct ids, of either kind, where a
  resolver's object has no property named \<^verbatim>\<open>id\<close>. Every message posted for a request, the later
  \<^verbatim>\<open>moduleId\<close> messages included, carries that request's \<^verbatim>\<open>id\<close> and not the other's. However
  the effects of the two are interleaved, the messages with the first id are those of the first
  request, in their order, and the messages with the second id are those of the second. Every
  message that a run of the interleaved effects adds to the outbox is the serialised form of a
  message of one of the two requests and carries the \<^verbatim>\<open>id\<close> of that request only.
\<close>

theorem no_cross_talk:
  assumes "rq_id m1 \<noteq> rq_id m2"
    and "resolver_keeps ''id'' ext vp m1" and "resolver_keeps ''id'' ext vp m2"
  shows "(\<forall>m\<in>set (posted (session ext vp m1)). has_id (rq_id m1) m \<and> \<not> has_id (rq_id m2) m)
     \<and> (\<forall>m\<in>set (posted (session ext vp m2)). has_id (rq_id m2) m \<and> \<not> has_id (rq_id m1) m)
     \<and> filter (has_id (rq_id m1)) (posted (interleave sched (session ext vp m1) (session ext vp m2)))
         = posted (session ext vp m1)
     \<and> filter (has_id (rq_id m2)) (posted (interleave sched (session ext vp m1) (session ext vp m2)))
         = posted (session ext vp m2)
     \<and> (\<forall>p\<in>set (new_posts w
                   (run (interleave sched (session ext vp m1) (session ext vp m2)) w)).
           (has_id (rq_id m1) (fst p) \<and> \<not> has_id (rq_id m2) (fst p)
              \<and> (\<exists>m\<in>set (posted (session ext vp m1)). \<exists>h. fst p = serialise h m))
           \<or> (has_id (rq_id m2) (fst p) \<and> \<not> has_id (rq_id m1) (fst p)
              \<and> (\<exists>m\<in>set (posted (session ext vp m2)). \<exists>h. fst p = serialise h m)))"
proof -
  have a1: "\<forall>m\<in>set (posted (session ext vp m1)). has_id (rq_id m1) m"
  proof
    fix m assume "m \<in> set (posted (session ext vp m1))"
    from own_id_session [OF this assms(2)] show "has_id (rq_id m1) m" .
  qed
  have a2: "\<forall>m\<in>set (posted (session ext vp m2)). has_id (rq_id m2) m"
  proof
    fix m assume "m \<in> set (posted (session ext vp m2))"
    from own_id_session [OF this assms(3)] show "has_id (rq_id m2) m" .
  qed
  have n1: "\<forall>m\<in>set (posted (session ext vp m1)). \<not> has_id (rq_id m2) m"
  proof
    fix m assume "m \<in> set (posted (session ext vp m1))"
    with a1 have "has_id (rq_id m1) m" by (rule bspec)
    from has_id_unique [OF this assms(1)] show "\<not> has_id (rq_id m2) m" .
  qed
  have n2: "\<forall>m\<in>set (posted (session ext vp m2)). \<not> has_id (rq_id m1) m"
  proof
    fix m assume "m \<in> set (posted (session ext vp m2))"
    with a2 have "has_id (rq_id m2) m" by (rule bspec)
    from has_id_unique [OF this assms(1) [symmetric]] show "\<not> has_id (rq_id m1) m" .
  qed
  have b1: "\<forall>m\<in>set (posted (session ext vp m1)). has_id (rq_id m1) m \<and> \<not> has_id (rq_id m2) m"
    using a1 n1 by (rule ball_conj_distrib [THEN iffD2, OF conjI])
  have b2: "\<forall>m\<in>set (posted (session ext vp m2)). has_id (rq_id m2) m \<and> \<not> has_id (rq_id m1) m"
    using a2 n2 by (rule ball_conj_distrib [THEN iffD2, OF conjI])
  define es where "es = interleave sched (session ext vp m1) (session ext vp m2)"
  from run_outbox [of es w] obtain new where
    o: "outbox (run es w) = outbox w @ new"
    and p: "\<forall>p\<in>set new. \<exists>m\<in>set (posted es). \<exists>h. fst p = serialise h m"
    by blast
  have np: "new_posts w (run es w) = new"
    using o by (rule new_posts_append)
  have d: "\<forall>p\<in>set (new_posts w (run es w)).
           (has_id (rq_id m1) (fst p) \<and> \<not> has_id (rq_id m2) (fst p)
              \<and> (\<exists>m\<in>set (posted (session ext vp m1)). \<exists>h. fst p = serialise h m))
           \<or> (has_id (rq_id m2) (fst p) \<and> \<not> has_id (rq_id m1) (fst p)
              \<and> (\<exists>m\<in>set (posted (session ext vp m2)). \<exists>h. fst p = serialise h m))"
  proof
    fix q assume "q \<in> set (new_posts w (run es w))"
    with np p obtain m h where m: "m \<in> set (posted es)" and q: "fst q = serialise h m"
      by auto
    from m set_posted_interleave [of sched "session ext vp m1" "session ext vp m2"]
    consider "m \<in> set (posted (session ext vp m1))" | "m \<in> set (posted (session ext vp m2))"
      unfolding es_def by blast
    then show "(has_id (rq_id m1) (fst q) \<and> \<not> has_id (rq_id m2) (fst q)
              \<and> (\<exists>m\<in>set (posted (session ext vp m1)). \<exists>h. fst q = serialise h m))
           \<or> (has_id (rq_id m2) (fst q) \<and> \<not> has_id (rq_id m1) (fst q)
              \<and> (\<exists>m\<in>set (posted (session ext vp m2)). \<exists>h. fst q = serialise h m))"
    proof cases
      case 1
      with a1 have "has_id (rq_id m1) m" by (rule bspec)
      then have i: "has_id (rq_id m1) (fst q)" by (simp add: q has_id_serialise)
      from has_id_unique [OF i assms(1)] have "\<not> has_id (rq_id m2) (fst q)" .
      with i 1 q show ?thesis by blast
    next
      case 2
      with a2 have "has_id (rq_id m2) m" by (rule bspec)
      then have i: "has_id (rq_id m2) (fst q)" by (simp add: q has_id_serialise)
      from has_id_unique [OF i assms(1) [symmetric]] have "\<not> has_id (rq_id m1) (fst q)" .
      with i 2 q show ?thesis by blast
    qed
  qed
  from b1 b2 filter_posted_interleave_left [OF a1 n2, of sched]
    filter_posted_interleave_right [OF a2 n1, of sched] d [unfolded es_def]
  show ?thesis by (intro conjI)
qed

text \<open>The claim as it is written fails for a resolver whose object has a property named
  \<^verbatim>\<open>id\<close>: the message posted for request 1 carries the id of request 2.\<close>

theorem ssrConfig_id_counterexample:
  "rq_id (sample_req 1 ''getSsrConfig'') \<noteq> rq_id (sample_req 2 ''render'')
   \<and> map (has_id 1 \<circ> fst)
       (new_posts sample_worker
          (run (session (sample_ext run_ok (Inr (Some [''id'' \<mapsto> JNumber 2, ''body'' \<mapsto> JStream 9])))
                  sample_vp (sample_req 1 ''getSsrConfig'')) sample_worker)) = [False]
   \<and> map (has_id 2 \<circ> fst)
       (new_posts sample_worker
          (run (session (sample_ext run_ok (Inr (Some [''id'' \<mapsto> JNumber 2, ''body'' \<mapsto> JStream 9])))
                  sample_vp (sample_req 1 ''getSsrConfig'')) sample_worker)) = [True]"
proof -
  define cfg :: js_object where "cfg = [''id'' \<mapsto> JNumber 2, ''body'' \<mapsto> JStream 9]"
  have c: "crashed sample_worker = None"
    by (simp add: sample_worker_def)
  have o: "ssr_outcome (sample_ext run_ok (Inr (Some cfg))) sample_vp (sample_req 1 ''getSsrConfig'')
      = Inr (Some cfg)"
    by (simp add: ssr_outcome_def sample_simps)
  have b: "get_field cfg ''body'' = JStream 9"
    by (simp add: cfg_def get_field_def)
  have "\<forall>v\<in>ran cfg. cloneable (heap sample_worker) [get_field cfg ''body''] v"
    unfolding ball_ran b by (auto simp add: cfg_def split: if_splits)
  then have cp: "can_post (heap sample_worker) (ssr_mesg 1 (Some cfg)) (ssr_transfer (Some cfg))"
    by (simp add: can_post_ssr_Some b)
  have s: "session (sample_ext run_ok (Inr (Some cfg))) sample_vp (sample_req 1 ''getSsrConfig'')
      = handleGetSsrConfig (sample_ext run_ok (Inr (Some cfg))) sample_vp
          (sample_req 1 ''getSsrConfig'')"
    by (simp add: session_def on_message_def sample_req_def)
  have r: "new_posts sample_worker
      (run (session (sample_ext run_ok (Inr (Some cfg))) sample_vp
              (sample_req 1 ''getSsrConfig'')) sample_worker)
      = [(serialise (heap sample_worker) (ssr_mesg 1 (Some cfg)), ssr_transfer (Some cfg))]"
    unfolding s using handleGetSsrConfig_final [OF c o] cp
    by (simp add: try_ssrConfig_eq new_posts_def sample_req_def)
  have t1: "\<not> has_id 1 (serialise (heap sample_worker) (ssr_mesg 1 (Some cfg)))"
    and t2: "has_id 2 (serialise (heap sample_worker) (ssr_mesg 1 (Some cfg)))"
    by (simp_all add: has_id_def serialise_def ssr_mesg_def map_add_def cfg_def)
  have i: "rq_id (sample_req 1 ''getSsrConfig'') \<noteq> rq_id (sample_req 2 ''render'')"
    by (simp add: sample_req_def)
  from i r t1 t2 show ?thesis
    unfolding cfg_def by simp
qed

theorem no_cross_talk_witness:
  "rq_id (sample_req 1 ''render'') \<noteq> rq_id (sample_req 2 ''getSsrConfig'')
   \<and> resolver_keeps ''id'' (sample_ext run_late (Inr (Some [''body'' \<mapsto> JStream 9]))) sample_vp
        (sample_req 1 ''render'')
   \<and> resolver_keeps ''id'' (sample_ext run_late (Inr (Some [''body'' \<mapsto> JStream 9]))) sample_vp
        (sample_req 2 ''getSsrConfig'')
   \<and> filter (has_id 1)
        (posted (interleave [True, False]
           (session (sample_ext run_late (Inr (Some [''body'' \<mapsto> JStream 9]))) sample_vp
              (sample_req 1 ''render''))
           (session (sample_ext run_late (Inr (Some [''body'' \<mapsto> JStream 9]))) sample_vp
              (sample_req 2 ''getSsrConfig''))))
       = [moduleId_mesg 1 ''m1'', start_mesg 1 0 7, err_mesg 1 DataCloneError,
          moduleId_mesg 1 ''m2'']"
proof -
  have h1: "rq_id (sample_req 1 ''render'') \<noteq> rq_id (sample_req 2 ''getSsrConfig'')"
    by (simp add: sample_req_def)
  have h2: "resolver_keeps ''id'' (sample_ext run_late (Inr (Some [''body'' \<mapsto> JStream 9])))
      sample_vp (sample_req 1 ''render'')"
    by (simp add: resolver_keeps_def sample_req_def)
  have h3: "resolver_keeps ''id'' (sample_ext run_late (Inr (Some [''body'' \<mapsto> JStream 9])))
      sample_vp (sample_req 2 ''getSsrConfig'')"
    by (simp add: resolver_keeps_def ssr_outcome_def loadEntries_def sample_vp_def sample_ext_def)
  have p: "posted (session (sample_ext run_late (Inr (Some [''body'' \<mapsto> JStream 9]))) sample_vp
              (sample_req 1 ''render''))
       = [moduleId_mesg 1 ''m1'', start_mesg 1 0 7, err_mesg 1 DataCloneError,
          moduleId_mesg 1 ''m2'']"
    by (simp add: session_def render_session_def render_aftermath_def handleRender_def Let_def
        loadEntries_def sample_vp_def sample_ext_def run_late_def sample_req_def
        moduleIdCallback_eq)
  have i: "rq_id (sample_req 1 ''render'') = 1"
    by (simp add: sample_req_def)
  from no_cross_talk [OF h1 h2 h3, of "[True, False]", THEN conjunct2, THEN conjunct2,
      THEN conjunct1]
  have "filter (has_id (rq_id (sample_req 1 ''render'')))
        (posted (interleave [True, False]
           (session (sample_ext run_late (Inr (Some [''body'' \<mapsto> JStream 9]))) sample_vp
              (sample_req 1 ''render''))
           (session (sample_ext run_late (Inr (Some [''body'' \<mapsto> JStream 9]))) sample_vp
              (sample_req 2 ''getSsrConfig''))))
       = posted (session (sample_ext run_late (Inr (Some [''body'' \<mapsto> JStream 9]))) sample_vp
              (sample_req 1 ''render''))" .
  with h1 h2 h3 show ?thesis
    unfolding p i by (intro conjI)
qed

section \<open>The module loader over the worker's life\<close>

lemma post_uncaught_keeps:
  "vitePromise (post_uncaught mesg transferList w) = vitePromise w"
  "private_env (post_uncaught mesg transferList w) = private_env w"
  "createViteServer_calls (post_uncaught mesg transferList w) = createViteServer_calls w"
  by (simp_all add: post_uncaught_def postMessage_def)

lemma step_keeps:
  "vitePromise (step e w) = vitePromise w"
  "private_env (step e w) = private_env w"
  "createViteServer_calls (step e w) = createViteServer_calls w"
  by (cases e; simp add: post_uncaught_keeps try_start_eq try_ssrConfig_eq freeze_context_def
      split: option.splits)+

lemma perform_keeps:
  "vitePromise (perform e w) = vitePromise w"
  "private_env (perform e w) = private_env w"
  "createViteServer_calls (perform e w) = createViteServer_calls w"
  by (simp_all add: perform_def step_keeps)

lemma run_keeps:
  "vitePromise (run es w) = vitePromise w"
  "private_env (run es w) = private_env w"
  "createViteServer_calls (run es w) = createViteServer_calls w"
  by (induction es arbitrary: w; simp add: perform_keeps)+

lemma serve_keeps:
  "vitePromise (serve ext mesgs w) = vitePromise w"
  "private_env (serve ext mesgs w) = private_env w"
  "createViteServer_calls (serve ext mesgs w) = createViteServer_calls w"
  by (induction mesgs arbitrary: w; simp add: run_keeps)+





section \<open>The private environment\<close>

text \<open>
  Claim C10. Module evaluation parses \<^verbatim>\<open>__WAKU_PRIVATE_ENV__\<close> before it installs the listener.
  When the variable is absent, or its text is not JSON, module evaluation throws and the worker
  handles no message. A worker that handles messages has the parsed value of the variable in
  \<^verbatim>\<open>globalThis.__WAKU_PRIVATE_ENV__\<close>, whatever messages it has handled.
\<close>

theorem private_env_installed:
  "(env_WAKU_PRIVATE_ENV st = None \<longrightarrow> boot st = Inl SyntaxError \<and> lifetime st ext mesgs = None)
   \<and> (\<forall>s. env_WAKU_PRIVATE_ENV st = Some s \<and> json_text st s = None \<longrightarrow>
          boot st = Inl SyntaxError \<and> lifetime st ext mesgs = None)
   \<and> (\<forall>w. lifetime st ext mesgs = Some w \<longrightarrow>
          (\<exists>s. env_WAKU_PRIVATE_ENV st = Some s \<and> json_text st s = Some (private_env w)))"
  by (auto simp add: lifetime_def boot_def JSON_parse_def serve_keeps
      split: sum.splits option.splits prod.splits)

theorem private_env_installed_witness:
  "lifetime (sample_startup None) (sample_ext run_ok (Inr None)) [sample_req 1 ''render''] = None
   \<and> json_text (sample_startup (Some ''oops'')) ''oops'' = None
   \<and> lifetime (sample_startup (Some ''oops'')) (sample_ext run_ok (Inr None))
        [sample_req 1 ''render''] = None
   \<and> map_option private_env
        (lifetime (sample_startup (Some ''{}'')) (sample_ext run_ok (Inr None))
           [sample_req 1 ''render'']) = Some (JObject False [])"
  using private_env_installed [of "sample_startup None" "sample_ext run_ok (Inr None)"
      "[sample_req 1 ''render'']"]
    private_env_installed [of "sample_startup (Some ''oops'')" "sample_ext run_ok (Inr None)"
      "[sample_req 1 ''render'']"]
    private_env_installed [of "sample_startup (Some ''{}'')" "sample_ext run_ok (Inr None)"
      "[sample_req 1 ''render'']"]
  by (simp add: lifetime_def boot_def sample_startup_def JSON_parse_def serve_keeps vite_then_def)

end
